theory Spec2Isabelle
  imports Complex_Main
begin

section \<open>Display discovery and configuration of the KWin and Mutter backends\<close>

text \<open>
  A shallow embedding of \<^verbatim>\<open>src/vdagent/kwin.c\<close> and \<^verbatim>\<open>src/vdagent/mutter.c\<close>.

  Conventions of the embedding.
  \<^item> A C \<^verbatim>\<open>int\<close> is an \<open>int\<close>, a \<^verbatim>\<open>guint\<close> or \<^verbatim>\<open>uint32_t\<close> index or count a \<open>nat\<close>.
    The one place where the code does arithmetic on them, the sums \<^verbatim>\<open>x + width\<close> and
    \<^verbatim>\<open>y + height\<close> of the desktop size, is computed in 32 bits (\<open>c_int_add\<close>). The
    conversions between \<^verbatim>\<open>int\<close>, \<^verbatim>\<open>guint\<close> and \<^verbatim>\<open>uint32_t\<close> copy a value and are taken
    where they keep it (below \<open>2 ^ 31\<close>).
  \<^item> A \<^verbatim>\<open>gdouble\<close> is a \<open>real\<close>; the only operations the code applies to one are the
    comparison \<^verbatim>\<open>a > b\<close> and a copy, so the embedding covers every double but NaN.
  \<^item> A pointer that may be \<^verbatim>\<open>NULL\<close> is an \<open>option\<close>; a \<^verbatim>\<open>GArray\<close> or \<^verbatim>\<open>GPtrArray\<close> is a
    list in insertion order.
  \<^item> The connector mapping (a \<^verbatim>\<open>GHashTable\<close> from connector name to SPICE display id)
    is a map from \<open>string\<close> to \<open>nat\<close>: the value is what \<^verbatim>\<open>GPOINTER_TO_UINT\<close> reads.
  \<^item> Wayland protocol objects and DBus proxies are opaque handles (\<open>nat\<close>); what the
    compositor answers is an argument of the embedded function.
\<close>

subsection \<open>Data shared by both backends\<close>

text \<open>\<^verbatim>\<open>struct vdagentd_guest_xorg_resolution\<close>, the record both discovery functions return.\<close>

record vdagentd_guest_xorg_resolution =
  res_width :: int
  res_height :: int
  res_x :: int
  res_y :: int
  display_id :: int

text \<open>
  \<^verbatim>\<open>VDAgentMonConfig\<close>: one entry of the requested layout. The entry has no display id of
  its own: the SPICE display it configures is its index in \<^verbatim>\<open>mon_config->monitors\<close>.
\<close>

record VDAgentMonConfig =
  mc_height :: nat
  mc_width :: nat
  mc_depth :: nat
  mc_x :: int
  mc_y :: int

text \<open>
  The accumulators of a discovery loop: the two result arrays, the desktop size and the
  screen count (the three \<^verbatim>\<open>int *\<close> out-parameters).
\<close>

record resolutions_acc =
  gr_res_array :: "vdagentd_guest_xorg_resolution list"
  gr_not_found_array :: "vdagentd_guest_xorg_resolution list"
  gr_width :: int
  gr_height :: int
  gr_screen_count :: int

text \<open>
  The sum of two C \<^verbatim>\<open>int\<close>s as the compiled code computes it: in 32 bits, two's
  complement. (The C standard leaves a sum outside the range of \<^verbatim>\<open>int\<close> undefined; the
  machine wraps it.)
\<close>

definition c_int_add :: "int \<Rightarrow> int \<Rightarrow> int" where
  "c_int_add a b = (a + b + 2 ^ 31) mod 2 ^ 32 - 2 ^ 31"

text \<open>
  \<^verbatim>\<open>if (curr.x + curr.width > *width) *width = curr.x + curr.width;\<close> and the same for
  the height: the desktop-size step both loops perform on each record.
\<close>

definition grow_desktop :: "vdagentd_guest_xorg_resolution \<Rightarrow> resolutions_acc \<Rightarrow> resolutions_acc" where
  "grow_desktop res s =
     (let s1 = (if c_int_add (res_x res) (res_width res) > gr_width s
                then s\<lparr>gr_width := c_int_add (res_x res) (res_width res)\<rparr> else s)
      in (if c_int_add (res_y res) (res_height res) > gr_height s1
          then s1\<lparr>gr_height := c_int_add (res_y res) (res_height res)\<rparr> else s1))"

text \<open>
  \<^verbatim>\<open>for (i = 0; i < res_array->len; i++) res[i].display_id = i;\<close> started at index \<open>i\<close>.
\<close>

fun assign_monitor_index :: "nat \<Rightarrow> vdagentd_guest_xorg_resolution list \<Rightarrow>
    vdagentd_guest_xorg_resolution list" where
  "assign_monitor_index i [] = []"
| "assign_monitor_index i (r # rs) = r\<lparr>display_id := int i\<rparr> # assign_monitor_index (Suc i) rs"

text \<open>
  The tail of both discovery functions: when no record was mapped, the unmapped records
  are returned with their index as display id; otherwise the unmapped ones are freed.
\<close>

definition choose_res_array :: "resolutions_acc \<Rightarrow> vdagentd_guest_xorg_resolution list" where
  "choose_res_array s =
     (if length (gr_res_array s) = 0 then assign_monitor_index 0 (gr_not_found_array s)
      else gr_res_array s)"

subsection \<open>KWin: data\<close>

record KWinMode =
  km_mode :: nat
  km_width :: int
  km_height :: int
  km_refresh :: int
  km_preferred :: bool
  km_current :: bool

record KWinOutput =
  ko_device :: nat
  ko_name :: "string option"
  ko_x :: int
  ko_y :: int
  ko_width :: int
  ko_height :: int
  ko_transform :: int
  ko_scale :: real
  ko_enabled :: bool
  ko_modes :: "KWinMode list"
  ko_current_mode :: "KWinMode option"
  ko_preferred_mode :: "KWinMode option"
  ko_done :: bool

text \<open>
  \<^verbatim>\<open>struct VDAgentKWin\<close>: whether \<^verbatim>\<open>output_management\<close> is bound, the mapping and the
  outputs. Its flags \<^verbatim>\<open>config_applied\<close> and \<^verbatim>\<open>config_failed\<close> live for one apply only and are
  kept in the session record of that apply, further down.
\<close>

record VDAgentKWin =
  output_management :: bool
  connector_mapping :: "string \<rightharpoonup> nat"
  outputs :: "KWinOutput list"

subsection \<open>KWin: discovery\<close>

text \<open>
  \<^verbatim>\<open>output->name && g_hash_table_lookup_extended(kwin->connector_mapping, output->name, ...)\<close>:
  the mapped display id of an output, if it has a name and the name is a key.
\<close>

definition kwin_lookup :: "(string \<rightharpoonup> nat) \<Rightarrow> KWinOutput \<Rightarrow> nat option" where
  "kwin_lookup cm output = (case ko_name output of None \<Rightarrow> None | Some n \<Rightarrow> cm n)"

text \<open>The \<^verbatim>\<open>res\<close> initialiser of the loop body, with display id 0.\<close>

definition kwin_res :: "KWinOutput \<Rightarrow> vdagentd_guest_xorg_resolution" where
  "kwin_res output =
     \<lparr>res_width = ko_width output, res_height = ko_height output,
      res_x = ko_x output, res_y = ko_y output, display_id = 0\<rparr>"

text \<open>The loop over \<^verbatim>\<open>kwin->outputs\<close> of \<^verbatim>\<open>vdagent_kwin_get_resolutions\<close>.\<close>

fun kwin_scan_outputs :: "(string \<rightharpoonup> nat) \<Rightarrow> KWinOutput list \<Rightarrow> resolutions_acc \<Rightarrow> resolutions_acc" where
  "kwin_scan_outputs cm [] s = s"
| "kwin_scan_outputs cm (output # rest) s =
     (if \<not> ko_done output \<or> \<not> ko_enabled output then kwin_scan_outputs cm rest s
      else
        let s1 = s\<lparr>gr_screen_count := gr_screen_count s + 1\<rparr>;
            res = kwin_res output;
            s2 = grow_desktop res s1
        in (case kwin_lookup cm output of
              Some v \<Rightarrow>
                kwin_scan_outputs cm rest
                  (s2\<lparr>gr_res_array := gr_res_array s2 @ [res\<lparr>display_id := int v\<rparr>]\<rparr>)
            | None \<Rightarrow>
                kwin_scan_outputs cm rest
                  (s2\<lparr>gr_not_found_array := gr_not_found_array s2 @ [res]\<rparr>)))"

text \<open>
  \<^verbatim>\<open>vdagent_kwin_get_resolutions\<close>. The argument is the client as the refreshing
  \<^verbatim>\<open>wl_display_roundtrip\<close> left it. \<open>None\<close> is the \<^verbatim>\<open>NULL\<close> return, which writes no
  out-parameter; \<open>Some (res_array, width, height, screen_count)\<close> is a successful call.
\<close>

definition vdagent_kwin_get_resolutions ::
    "VDAgentKWin option \<Rightarrow> (vdagentd_guest_xorg_resolution list \<times> int \<times> int \<times> int) option" where
  "vdagent_kwin_get_resolutions kwin_ptr =
     (case kwin_ptr of
        None \<Rightarrow> None
      | Some kwin \<Rightarrow>
          if \<not> output_management kwin then None
          else
            let s = kwin_scan_outputs (connector_mapping kwin) (outputs kwin)
                      \<lparr>gr_res_array = [], gr_not_found_array = [],
                       gr_width = 0, gr_height = 0, gr_screen_count = 0\<rparr>
            in Some (choose_res_array s, gr_width s, gr_height s, gr_screen_count s))"

subsection \<open>KWin: mode selection\<close>

text \<open>
  The loop of \<^verbatim>\<open>kwin_find_mode\<close>, with its two locals \<^verbatim>\<open>best\<close> and \<^verbatim>\<open>best_refresh\<close>.
\<close>

fun kwin_find_mode_loop :: "KWinMode list \<Rightarrow> int \<Rightarrow> int \<Rightarrow> KWinMode option \<Rightarrow> int \<Rightarrow> KWinMode option" where
  "kwin_find_mode_loop [] width height best best_refresh = best"
| "kwin_find_mode_loop (mode # rest) width height best best_refresh =
     (if km_width mode = width \<and> km_height mode = height then
        (if best = None \<or> km_refresh mode > best_refresh
         then kwin_find_mode_loop rest width height (Some mode) (km_refresh mode)
         else kwin_find_mode_loop rest width height best best_refresh)
      else kwin_find_mode_loop rest width height best best_refresh)"

definition kwin_find_mode :: "KWinOutput \<Rightarrow> int \<Rightarrow> int \<Rightarrow> KWinMode option" where
  "kwin_find_mode output width height = kwin_find_mode_loop (ko_modes output) width height None 0"

subsection \<open>KWin: applying a configuration\<close>

text \<open>
  The requests \<^verbatim>\<open>vdagent_kwin_set_monitor_config\<close> makes on the configuration object, each
  with the device it names. The scale travels as a \<^verbatim>\<open>wl_fixed_t\<close>.
\<close>

datatype kwin_request =
    Req_enable nat int
  | Req_mode nat nat
  | Req_position nat int int
  | Req_scale nat int
  | Req_transform nat int
  | Req_apply

text \<open>
  The inner loop over \<^verbatim>\<open>kwin->outputs\<close>: the first output that has a name which the
  mapping sends to display \<open>i\<close>.
\<close>

fun kwin_output_for_display :: "(string \<rightharpoonup> nat) \<Rightarrow> KWinOutput list \<Rightarrow> nat \<Rightarrow> KWinOutput option" where
  "kwin_output_for_display cm [] i = None"
| "kwin_output_for_display cm (out # rest) i =
     (case ko_name out of
        None \<Rightarrow> kwin_output_for_display cm rest i
      | Some n \<Rightarrow>
          (case cm n of
             Some v \<Rightarrow> if v = i then Some out else kwin_output_for_display cm rest i
           | None \<Rightarrow> kwin_output_for_display cm rest i))"

text \<open>
  The output of entry \<open>i\<close>: the mapped one, else
  \<^verbatim>\<open>if (!output && i < kwin->outputs->len) output = g_array_index(kwin->outputs, KWinOutput*, i)\<close>.
\<close>

definition kwin_target :: "(string \<rightharpoonup> nat) \<Rightarrow> KWinOutput list \<Rightarrow> nat \<Rightarrow> KWinOutput option" where
  "kwin_target cm outs i =
     (case kwin_output_for_display cm outs i of
        Some out \<Rightarrow> Some out
      | None \<Rightarrow> if i < length outs then Some (outs ! i) else None)"

text \<open>
  The rest of the loop body, for the output found. \<open>wl_fixed_from_double\<close> is the
  conversion of \<^verbatim>\<open>wayland-util.h\<close>, a parameter of the embedding.
\<close>

definition kwin_configure_output :: "(real \<Rightarrow> int) \<Rightarrow> KWinOutput \<Rightarrow> VDAgentMonConfig \<Rightarrow> kwin_request list" where
  "kwin_configure_output wl_fixed_from_double output mc =
     [Req_enable (ko_device output) 1] @
     (case kwin_find_mode output (int (mc_width mc)) (int (mc_height mc)) of
        Some mode \<Rightarrow> [Req_mode (ko_device output) (km_mode mode)]
      | None \<Rightarrow>
          (case ko_current_mode output of
             Some cur \<Rightarrow> [Req_mode (ko_device output) (km_mode cur)]
           | None \<Rightarrow> [])) @
     [Req_position (ko_device output) (mc_x mc) (mc_y mc),
      Req_scale (ko_device output) (wl_fixed_from_double (ko_scale output)),
      Req_transform (ko_device output) (ko_transform output)]"

text \<open>The loop over \<^verbatim>\<open>mon_config->monitors\<close>, from index \<open>i\<close> on.\<close>

fun kwin_configure_monitors ::
    "(real \<Rightarrow> int) \<Rightarrow> (string \<rightharpoonup> nat) \<Rightarrow> KWinOutput list \<Rightarrow> nat \<Rightarrow> VDAgentMonConfig list \<Rightarrow> kwin_request list" where
  "kwin_configure_monitors fx cm outs i [] = []"
| "kwin_configure_monitors fx cm outs i (mc # rest) =
     (case kwin_target cm outs i of
        None \<Rightarrow> kwin_configure_monitors fx cm outs (Suc i) rest
      | Some output \<Rightarrow>
          kwin_configure_output fx output mc @ kwin_configure_monitors fx cm outs (Suc i) rest)"

text \<open>
  What a function does while it waits for the outcome of a submitted configuration: it lets
  the client process events once (\<^verbatim>\<open>wl_display_roundtrip\<close>), it sleeps (\<^verbatim>\<open>g_usleep\<close>,
  microseconds), or it sits in one synchronous call with a timeout in milliseconds.
\<close>

datatype wait_step = Process_events | Sleep_us nat | Blocking_call int

datatype config_event = Applied | Failed

text \<open>
  The two flags of the client during one apply, the number of roundtrips made since the
  configuration was submitted, and the steps taken since then.
\<close>

record kwin_session =
  ks_config_applied :: bool
  ks_config_failed :: bool
  ks_roundtrips :: nat
  ks_steps :: "wait_step list"

text \<open>\<^verbatim>\<open>config_handle_applied\<close> and \<^verbatim>\<open>config_handle_failed\<close>, through the listener.\<close>

fun config_listener :: "config_event \<Rightarrow> kwin_session \<Rightarrow> kwin_session" where
  "config_listener Applied s = s\<lparr>ks_config_applied := True\<rparr>"
| "config_listener Failed s = s\<lparr>ks_config_failed := True\<rparr>"

text \<open>
  \<^verbatim>\<open>wl_display_roundtrip\<close> in the wait loop: the compositor's events of this roundtrip
  (\<open>events k\<close> for the \<open>k\<close>-th one, counted from 0) are dispatched in order.
\<close>

definition wl_display_roundtrip :: "(nat \<Rightarrow> config_event list) \<Rightarrow> kwin_session \<Rightarrow> kwin_session" where
  "wl_display_roundtrip events s =
     (fold config_listener (events (ks_roundtrips s)) s)
       \<lparr>ks_roundtrips := Suc (ks_roundtrips s), ks_steps := ks_steps s @ [Process_events]\<rparr>"

definition g_usleep :: "nat \<Rightarrow> kwin_session \<Rightarrow> kwin_session" where
  "g_usleep us s = s\<lparr>ks_steps := ks_steps s @ [Sleep_us us]\<rparr>"

text \<open>
  \<^verbatim>\<open>
  while (!kwin->config_applied && !kwin->config_failed && max_wait > 0) {
      wl_display_roundtrip(kwin->display);
      if (!kwin->config_applied && !kwin->config_failed) {
          g_usleep(100000);
          max_wait--;
      }
  }
  \<close>
\<close>

function kwin_wait :: "(nat \<Rightarrow> config_event list) \<Rightarrow> kwin_session \<Rightarrow> int \<Rightarrow> kwin_session" where
  "kwin_wait events s max_wait =
     (if \<not> ks_config_applied s \<and> \<not> ks_config_failed s \<and> max_wait > 0 then
        (let s1 = wl_display_roundtrip events s in
         if \<not> ks_config_applied s1 \<and> \<not> ks_config_failed s1
         then kwin_wait events (g_usleep 100000 s1) (max_wait - 1)
         else kwin_wait events s1 max_wait)
      else s)"
  by pat_completeness auto
termination
  by (relation "measure (\<lambda>(events, s, max_wait).
        if ks_config_applied s \<or> ks_config_failed s then 0 else 2 * nat max_wait + 1)")
     (auto simp: g_usleep_def)

text \<open>The equation of the loop is unfolded by hand, one iteration at a time.\<close>

declare kwin_wait.simps [simp del]

record kwin_apply_result =
  ka_ret :: int
  ka_requests :: "kwin_request list"
  ka_session :: kwin_session

definition kwin_session_start :: kwin_session where
  "kwin_session_start =
     \<lparr>ks_config_applied = False, ks_config_failed = False, ks_roundtrips = 0, ks_steps = []\<rparr>"

text \<open>
  \<^verbatim>\<open>vdagent_kwin_set_monitor_config\<close>. \<open>kwin_ptr\<close> is the client after the refreshing
  roundtrip, \<open>config_created\<close> tells whether \<^verbatim>\<open>kde_output_management_v2_create_configuration\<close>
  returned an object, \<open>events\<close> is what the compositor sends in the roundtrips of the wait.
  The result holds the return value, the requests made on the configuration object and the
  session as the wait left it.
\<close>

definition vdagent_kwin_set_monitor_config ::
    "(real \<Rightarrow> int) \<Rightarrow> bool \<Rightarrow> (nat \<Rightarrow> config_event list) \<Rightarrow> VDAgentKWin option \<Rightarrow>
     VDAgentMonConfig list option \<Rightarrow> kwin_apply_result" where
  "vdagent_kwin_set_monitor_config fx config_created events kwin_ptr mon_config =
     (case (kwin_ptr, mon_config) of
        (Some kwin, Some monitors) \<Rightarrow>
          if \<not> output_management kwin then
            \<lparr>ka_ret = - 1, ka_requests = [], ka_session = kwin_session_start\<rparr>
          else if \<not> config_created then
            \<lparr>ka_ret = - 1, ka_requests = [], ka_session = kwin_session_start\<rparr>
          else
            let reqs = kwin_configure_monitors fx (connector_mapping kwin) (outputs kwin) 0 monitors
                         @ [Req_apply];
                s = kwin_wait events kwin_session_start 50
            in if ks_config_failed s then \<lparr>ka_ret = - 1, ka_requests = reqs, ka_session = s\<rparr>
               else if \<not> ks_config_applied s then \<lparr>ka_ret = - 1, ka_requests = reqs, ka_session = s\<rparr>
               else \<lparr>ka_ret = 0, ka_requests = reqs, ka_session = s\<rparr>
      | _ \<Rightarrow> \<lparr>ka_ret = - 1, ka_requests = [], ka_session = kwin_session_start\<rparr>)"

subsection \<open>Mutter: the reply of GetCurrentState\<close>

text \<open>
  A mode of \<^verbatim>\<open>MODE_FORMAT\<close>: id, width, height, refresh rate and the two properties the code
  looks up, each absent (\<open>None\<close>) or a boolean.
\<close>

record mutter_mode_variant =
  mv_id :: string
  mv_width :: int
  mv_height :: int
  mv_refresh_rate :: real
  mv_is_current :: "bool option"
  mv_is_preferred :: "bool option"

text \<open>A monitor of \<^verbatim>\<open>MONITOR_FORMAT\<close>: the connector of its spec and its modes.\<close>

record mutter_monitor_variant =
  mn_connector :: string
  mn_modes :: "mutter_mode_variant list"

text \<open>
  A logical monitor of \<^verbatim>\<open>LOGICAL_MONITOR_FORMAT\<close>: position, scale, transform, primary flag
  and the connectors of the monitor specs it shows.
\<close>

record mutter_logical_monitor_variant =
  lm_x :: int
  lm_y :: int
  lm_scale :: real
  lm_transform :: nat
  lm_primary :: bool
  lm_monitors :: "string list"

record mutter_current_state =
  cs_serial :: nat
  cs_monitors :: "mutter_monitor_variant list"
  cs_logical_monitors :: "mutter_logical_monitor_variant list"

record VDAgentMutterDBus =
  dbus_proxy :: "nat option"
  mutter_connector_mapping :: "string \<rightharpoonup> nat"

subsection \<open>Mutter: discovery\<close>

text \<open>
  \<^verbatim>\<open>vdagent_mutter_get_monitor_position\<close>. Each logical monitor first writes its position
  to \<^verbatim>\<open>*x\<close> and \<^verbatim>\<open>*y\<close>; a miss resets both to 0. With no logical monitor at all nothing is
  written, and the caller's values \<open>xy\<close> stay.
\<close>

fun vdagent_mutter_get_monitor_position ::
    "mutter_logical_monitor_variant list \<Rightarrow> string \<Rightarrow> int \<times> int \<Rightarrow> int \<times> int" where
  "vdagent_mutter_get_monitor_position [] connector xy = xy"
| "vdagent_mutter_get_monitor_position (lm # rest) connector xy =
     (if connector \<in> set (lm_monitors lm) then (lm_x lm, lm_y lm)
      else vdagent_mutter_get_monitor_position rest connector (0, 0))"

text \<open>The loop over the modes of a monitor: the first mode whose \<^verbatim>\<open>is-current\<close> is true.\<close>

fun mutter_current_mode :: "mutter_mode_variant list \<Rightarrow> mutter_mode_variant option" where
  "mutter_current_mode [] = None"
| "mutter_current_mode (mode # rest) =
     (if (case mv_is_current mode of None \<Rightarrow> False | Some b \<Rightarrow> b) then Some mode
      else mutter_current_mode rest)"

text \<open>
  The record \<^verbatim>\<open>curr\<close> of a monitor with a current mode. \<^verbatim>\<open>curr\<close> is declared without an
  initialiser: \<open>curr0\<close> stands for what it holds before it is filled.
\<close>

definition mutter_res ::
    "mutter_logical_monitor_variant list \<Rightarrow> vdagentd_guest_xorg_resolution \<Rightarrow> string \<Rightarrow>
     mutter_mode_variant \<Rightarrow> vdagentd_guest_xorg_resolution" where
  "mutter_res lms curr0 connector mode =
     (let (x, y) = vdagent_mutter_get_monitor_position lms connector (res_x curr0, res_y curr0)
      in curr0\<lparr>res_x := x, res_y := y, res_width := mv_width mode, res_height := mv_height mode\<rparr>)"

text \<open>The loop over the monitors of \<^verbatim>\<open>vdagent_mutter_get_resolutions\<close>.\<close>

fun mutter_scan_monitors ::
    "(string \<rightharpoonup> nat) \<Rightarrow> mutter_logical_monitor_variant list \<Rightarrow> vdagentd_guest_xorg_resolution \<Rightarrow>
     mutter_monitor_variant list \<Rightarrow> resolutions_acc \<Rightarrow> resolutions_acc" where
  "mutter_scan_monitors cm lms curr0 [] s = s"
| "mutter_scan_monitors cm lms curr0 (monitor # rest) s =
     (case mutter_current_mode (mn_modes monitor) of
        None \<Rightarrow> mutter_scan_monitors cm lms curr0 rest s
      | Some mode \<Rightarrow>
          let curr = mutter_res lms curr0 (mn_connector monitor) mode;
              s2 = grow_desktop curr s
          in (case cm (mn_connector monitor) of
                Some v \<Rightarrow>
                  mutter_scan_monitors cm lms curr0 rest
                    (s2\<lparr>gr_res_array := gr_res_array s2 @ [curr\<lparr>display_id := int v\<rparr>]\<rparr>)
              | None \<Rightarrow>
                  mutter_scan_monitors cm lms curr0 rest
                    (s2\<lparr>gr_not_found_array := gr_not_found_array s2 @ [curr]\<rparr>)))"

text \<open>
  \<^verbatim>\<open>vdagent_mutter_get_resolutions\<close>. \<open>reply\<close> is what the synchronous \<^verbatim>\<open>GetCurrentState\<close>
  call returned (\<open>None\<close> for \<^verbatim>\<open>NULL\<close>). The function never initialises \<^verbatim>\<open>*desktop_width\<close>
  and \<^verbatim>\<open>*desktop_height\<close>: \<open>desktop_width\<close> and \<open>desktop_height\<close> are the values the caller
  left there. The screen count is \<^verbatim>\<open>g_variant_iter_n_children(monitors)\<close>.
\<close>

definition vdagent_mutter_get_resolutions ::
    "VDAgentMutterDBus option \<Rightarrow> mutter_current_state option \<Rightarrow> vdagentd_guest_xorg_resolution \<Rightarrow>
     int \<Rightarrow> int \<Rightarrow> (vdagentd_guest_xorg_resolution list \<times> int \<times> int \<times> int) option" where
  "vdagent_mutter_get_resolutions mutter_ptr reply curr0 desktop_width desktop_height =
     (case mutter_ptr of
        None \<Rightarrow> None
      | Some mutter \<Rightarrow>
          (case reply of
             None \<Rightarrow> None
           | Some values \<Rightarrow>
               let s = mutter_scan_monitors (mutter_connector_mapping mutter)
                         (cs_logical_monitors values) curr0 (cs_monitors values)
                         \<lparr>gr_res_array = [], gr_not_found_array = [],
                          gr_width = desktop_width, gr_height = desktop_height,
                          gr_screen_count = int (length (cs_monitors values))\<rparr>
               in Some (choose_res_array s, gr_width s, gr_height s, gr_screen_count s)))"

subsection \<open>Mutter: parsing the state for an apply\<close>

record MutterModeInfo =
  mode_id :: string
  mi_width :: int
  mi_height :: int
  refresh_rate :: real
  is_current :: bool
  is_preferred :: bool

record MutterMonitorInfo =
  connector :: string
  modes :: "MutterModeInfo list"
  current_x :: int
  current_y :: int
  current_scale :: real
  current_transform :: nat
  is_primary :: bool
  is_enabled :: bool
  current_mode_id :: "string option"
  spice_display_id :: int

definition parse_mode :: "mutter_mode_variant \<Rightarrow> MutterModeInfo" where
  "parse_mode mode =
     \<lparr>mode_id = mv_id mode, mi_width = mv_width mode, mi_height = mv_height mode,
      refresh_rate = mv_refresh_rate mode,
      is_current = (case mv_is_current mode of None \<Rightarrow> False | Some b \<Rightarrow> b),
      is_preferred = (case mv_is_preferred mode of None \<Rightarrow> False | Some b \<Rightarrow> b)\<rparr>"

definition parse_monitor_modes :: "mutter_mode_variant list \<Rightarrow> MutterModeInfo list" where
  "parse_monitor_modes modes_iter = map parse_mode modes_iter"

text \<open>
  \<^verbatim>\<open>find_logical_monitor_info\<close>: position, scale, transform and primary flag of the first
  logical monitor that shows the connector; (0, 0), 1.0, 0 and false when there is none.
\<close>

fun find_logical_monitor_info ::
    "mutter_logical_monitor_variant list \<Rightarrow> string \<Rightarrow> int \<times> int \<times> real \<times> nat \<times> bool" where
  "find_logical_monitor_info [] conn = (0, 0, 1, 0, False)"
| "find_logical_monitor_info (lm # rest) conn =
     (if conn \<in> set (lm_monitors lm)
      then (lm_x lm, lm_y lm, lm_scale lm, lm_transform lm, lm_primary lm)
      else find_logical_monitor_info rest conn)"

text \<open>The "find current mode" loop of \<^verbatim>\<open>parse_monitors_from_state\<close>.\<close>

fun find_current_mode_id :: "MutterModeInfo list \<Rightarrow> string option" where
  "find_current_mode_id [] = None"
| "find_current_mode_id (mode # rest) =
     (if is_current mode then Some (mode_id mode) else find_current_mode_id rest)"

definition parse_monitor ::
    "(string \<rightharpoonup> nat) \<Rightarrow> mutter_logical_monitor_variant list \<Rightarrow> mutter_monitor_variant \<Rightarrow>
     MutterMonitorInfo" where
  "parse_monitor cm lms monitor =
     (let ms = parse_monitor_modes (mn_modes monitor);
          cur = find_current_mode_id ms;
          (x, y, sc, tr, pr) = find_logical_monitor_info lms (mn_connector monitor)
      in \<lparr>connector = mn_connector monitor, modes = ms,
          current_x = x, current_y = y, current_scale = sc, current_transform = tr,
          is_primary = pr, is_enabled = (cur \<noteq> None), current_mode_id = cur,
          spice_display_id = (case cm (mn_connector monitor) of Some v \<Rightarrow> int v | None \<Rightarrow> - 1)\<rparr>)"

definition parse_monitors_from_state ::
    "VDAgentMutterDBus \<Rightarrow> mutter_current_state \<Rightarrow> MutterMonitorInfo list" where
  "parse_monitors_from_state mutter values =
     map (parse_monitor (mutter_connector_mapping mutter) (cs_logical_monitors values))
         (cs_monitors values)"

subsection \<open>Mutter: mode selection\<close>

fun find_mode_loop ::
    "MutterModeInfo list \<Rightarrow> int \<Rightarrow> int \<Rightarrow> MutterModeInfo option \<Rightarrow> real \<Rightarrow> MutterModeInfo option" where
  "find_mode_loop [] width height best best_refresh = best"
| "find_mode_loop (mode # rest) width height best best_refresh =
     (if mi_width mode = width \<and> mi_height mode = height then
        (if best = None \<or> refresh_rate mode > best_refresh
         then find_mode_loop rest width height (Some mode) (refresh_rate mode)
         else find_mode_loop rest width height best best_refresh)
      else find_mode_loop rest width height best best_refresh)"

text \<open>\<^verbatim>\<open>find_mode_for_resolution\<close> returns the id of the best mode, or \<^verbatim>\<open>NULL\<close>.\<close>

definition find_mode_for_resolution :: "MutterMonitorInfo \<Rightarrow> int \<Rightarrow> int \<Rightarrow> string option" where
  "find_mode_for_resolution info width height =
     (case find_mode_loop (modes info) width height None 0 of
        Some best \<Rightarrow> Some (mode_id best)
      | None \<Rightarrow> None)"

subsection \<open>Mutter: applying a configuration\<close>

text \<open>An entry of \<^verbatim>\<open>APPLY_MONITOR_FORMAT\<close> (the properties are always empty).\<close>

record mutter_apply_monitor =
  am_connector :: string
  am_mode_id :: string

text \<open>An entry of \<^verbatim>\<open>APPLY_LOGICAL_MONITOR_FORMAT\<close>.\<close>

record mutter_apply_logical_monitor =
  alm_x :: int
  alm_y :: int
  alm_scale :: real
  alm_transform :: nat
  alm_primary :: bool
  alm_monitors :: "mutter_apply_monitor list"

text \<open>The inner loop: the first monitor with \<^verbatim>\<open>info->display_id == (int)i\<close>.\<close>

fun mutter_monitor_for_display :: "MutterMonitorInfo list \<Rightarrow> nat \<Rightarrow> MutterMonitorInfo option" where
  "mutter_monitor_for_display [] i = None"
| "mutter_monitor_for_display (info # rest) i =
     (if spice_display_id info = int i then Some info else mutter_monitor_for_display rest i)"

definition mutter_target :: "MutterMonitorInfo list \<Rightarrow> nat \<Rightarrow> MutterMonitorInfo option" where
  "mutter_target monitors i =
     (case mutter_monitor_for_display monitors i of
        Some info \<Rightarrow> Some info
      | None \<Rightarrow> if i < length monitors then Some (monitors ! i) else None)"

text \<open>The logical monitor entry the loop body adds for \<open>target\<close>, once a mode id is known.\<close>

definition mutter_logical_monitor ::
    "MutterMonitorInfo \<Rightarrow> nat \<Rightarrow> VDAgentMonConfig \<Rightarrow> string \<Rightarrow> mutter_apply_logical_monitor" where
  "mutter_logical_monitor target i mc mid =
     \<lparr>alm_x = mc_x mc, alm_y = mc_y mc,
      alm_scale = (if current_scale target > 0 then current_scale target else 1),
      alm_transform = current_transform target,
      alm_primary = (i = 0),
      alm_monitors = [\<lparr>am_connector = connector target, am_mode_id = mid\<rparr>]\<rparr>"

text \<open>
  The loop body after the target is found: the mode for the requested size, else the
  current mode, else \<^verbatim>\<open>continue\<close> (\<open>None\<close>).
\<close>

definition mutter_configure_monitor ::
    "MutterMonitorInfo \<Rightarrow> nat \<Rightarrow> VDAgentMonConfig \<Rightarrow> mutter_apply_logical_monitor option" where
  "mutter_configure_monitor target i mc =
     (case find_mode_for_resolution target (int (mc_width mc)) (int (mc_height mc)) of
        Some mid \<Rightarrow> Some (mutter_logical_monitor target i mc mid)
      | None \<Rightarrow>
          (case current_mode_id target of
             None \<Rightarrow> None
           | Some mid \<Rightarrow> Some (mutter_logical_monitor target i mc mid)))"

text \<open>
  The loop over \<^verbatim>\<open>mon_config->monitors\<close>, from index \<open>i\<close> on. (The array \<^verbatim>\<open>configured\<close> is
  written and never read, and is left out.)
\<close>

fun mutter_configure_monitors ::
    "MutterMonitorInfo list \<Rightarrow> nat \<Rightarrow> VDAgentMonConfig list \<Rightarrow> mutter_apply_logical_monitor list" where
  "mutter_configure_monitors monitors i [] = []"
| "mutter_configure_monitors monitors i (mc # rest) =
     (case mutter_target monitors i of
        None \<Rightarrow> mutter_configure_monitors monitors (Suc i) rest
      | Some target \<Rightarrow>
          (case mutter_configure_monitor target i mc of
             None \<Rightarrow> mutter_configure_monitors monitors (Suc i) rest
           | Some lm \<Rightarrow> lm # mutter_configure_monitors monitors (Suc i) rest))"

text \<open>
  How the synchronous \<^verbatim>\<open>ApplyMonitorsConfig\<close> call ends: with a reply, with an error reply,
  or with no reply within its timeout. The last two are the \<^verbatim>\<open>NULL\<close> return.
\<close>

datatype dbus_outcome = Dbus_reply | Dbus_error | Dbus_timeout

record mutter_apply_result =
  mr_ret :: int
  mr_submitted :: "(nat \<times> nat \<times> mutter_apply_logical_monitor list) option"
  mr_steps :: "wait_step list"

definition APPLY_METHOD_TEMPORARY :: nat where
  "APPLY_METHOD_TEMPORARY = 1"

text \<open>
  \<^verbatim>\<open>vdagent_mutter_set_monitor_config\<close>. \<open>reply\<close> is the reply of \<^verbatim>\<open>GetCurrentState\<close>,
  \<open>apply_monitors_config serial method logical_monitors\<close> is how the compositor answers
  the \<^verbatim>\<open>ApplyMonitorsConfig\<close> call, which is made with a timeout of 5000 ms. The result holds
  the return value, the arguments of that call if it was made, and the waiting done for it.
\<close>

definition vdagent_mutter_set_monitor_config ::
    "(nat \<Rightarrow> nat \<Rightarrow> mutter_apply_logical_monitor list \<Rightarrow> dbus_outcome) \<Rightarrow>
     mutter_current_state option \<Rightarrow> VDAgentMutterDBus option \<Rightarrow> VDAgentMonConfig list option \<Rightarrow>
     mutter_apply_result" where
  "vdagent_mutter_set_monitor_config apply_monitors_config reply mutter_ptr mon_config =
     (case (mutter_ptr, mon_config) of
        (Some mutter, Some mcs) \<Rightarrow>
          if dbus_proxy mutter = None then \<lparr>mr_ret = - 1, mr_submitted = None, mr_steps = []\<rparr>
          else
            (case reply of
               None \<Rightarrow> \<lparr>mr_ret = - 1, mr_submitted = None, mr_steps = []\<rparr>
             | Some values \<Rightarrow>
                 let serial = cs_serial values;
                     monitors = parse_monitors_from_state mutter values;
                     lms = mutter_configure_monitors monitors 0 mcs
                 in (case apply_monitors_config serial APPLY_METHOD_TEMPORARY lms of
                       Dbus_reply \<Rightarrow>
                         \<lparr>mr_ret = 0, mr_submitted = Some (serial, APPLY_METHOD_TEMPORARY, lms),
                          mr_steps = [Blocking_call 5000]\<rparr>
                     | _ \<Rightarrow>
                         \<lparr>mr_ret = - 1, mr_submitted = Some (serial, APPLY_METHOD_TEMPORARY, lms),
                          mr_steps = [Blocking_call 5000]\<rparr>))
      | _ \<Rightarrow> \<lparr>mr_ret = - 1, mr_submitted = None, mr_steps = []\<rparr>)"

subsection \<open>Notions used to state the properties of discovery\<close>

text \<open>
  The outputs a KWin discovery reads, in discovery order: those that are done (ready) and
  enabled.
\<close>

definition kwin_active :: "KWinOutput list \<Rightarrow> KWinOutput list" where
  "kwin_active outs = filter (\<lambda>out. ko_done out \<and> ko_enabled out) outs"

text \<open>Among them, the outputs whose connector name is a key of the mapping.\<close>

definition kwin_mapped :: "(string \<rightharpoonup> nat) \<Rightarrow> KWinOutput list \<Rightarrow> KWinOutput list" where
  "kwin_mapped cm outs = filter (\<lambda>out. kwin_lookup cm out \<noteq> None) (kwin_active outs)"

text \<open>The resolution record of an output with display id \<open>n\<close>.\<close>

definition kwin_record :: "KWinOutput \<Rightarrow> int \<Rightarrow> vdagentd_guest_xorg_resolution" where
  "kwin_record out n = (kwin_res out)\<lparr>display_id := n\<rparr>"

text \<open>
  The monitors a Mutter discovery reads: those with a current mode (Mutter's way of saying
  that a monitor is enabled).
\<close>

definition mutter_active :: "mutter_monitor_variant list \<Rightarrow> mutter_monitor_variant list" where
  "mutter_active ms = filter (\<lambda>m. mutter_current_mode (mn_modes m) \<noteq> None) ms"

definition mutter_mapped :: "(string \<rightharpoonup> nat) \<Rightarrow> mutter_monitor_variant list \<Rightarrow> mutter_monitor_variant list" where
  "mutter_mapped cm ms = filter (\<lambda>m. cm (mn_connector m) \<noteq> None) (mutter_active ms)"

text \<open>
  The resolution record of a monitor that has a current mode, with display id \<open>n\<close>.
\<close>

definition mutter_record ::
    "mutter_logical_monitor_variant list \<Rightarrow> vdagentd_guest_xorg_resolution \<Rightarrow>
     mutter_monitor_variant \<Rightarrow> int \<Rightarrow> vdagentd_guest_xorg_resolution" where
  "mutter_record lms curr0 m n =
     (mutter_res lms curr0 (mn_connector m) (the (mutter_current_mode (mn_modes m))))\<lparr>display_id := n\<rparr>"

text \<open>
  The right and the bottom edge of an output on the desktop, \<open>x + width\<close> and
  \<open>y + height\<close>, and whether a value fits a C \<^verbatim>\<open>int\<close>.
\<close>

definition kwin_right :: "KWinOutput \<Rightarrow> int" where
  "kwin_right out = ko_x out + ko_width out"

definition kwin_bottom :: "KWinOutput \<Rightarrow> int" where
  "kwin_bottom out = ko_y out + ko_height out"

definition mutter_right ::
    "mutter_logical_monitor_variant list \<Rightarrow> vdagentd_guest_xorg_resolution \<Rightarrow>
     mutter_monitor_variant \<Rightarrow> int" where
  "mutter_right lms curr0 m = res_x (mutter_record lms curr0 m 0) + res_width (mutter_record lms curr0 m 0)"

definition mutter_bottom ::
    "mutter_logical_monitor_variant list \<Rightarrow> vdagentd_guest_xorg_resolution \<Rightarrow>
     mutter_monitor_variant \<Rightarrow> int" where
  "mutter_bottom lms curr0 m = res_y (mutter_record lms curr0 m 0) + res_height (mutter_record lms curr0 m 0)"

definition fits_int :: "int \<Rightarrow> bool" where
  "fits_int v = (- (2 ^ 31) \<le> v \<and> v < 2 ^ 31)"

text \<open>The same edges as the code computes them, in 32 bits.\<close>

definition kwin_right_c :: "KWinOutput \<Rightarrow> int" where
  "kwin_right_c out = c_int_add (ko_x out) (ko_width out)"

definition kwin_bottom_c :: "KWinOutput \<Rightarrow> int" where
  "kwin_bottom_c out = c_int_add (ko_y out) (ko_height out)"

definition mutter_right_c ::
    "mutter_logical_monitor_variant list \<Rightarrow> vdagentd_guest_xorg_resolution \<Rightarrow>
     mutter_monitor_variant \<Rightarrow> int" where
  "mutter_right_c lms curr0 m =
     c_int_add (res_x (mutter_record lms curr0 m 0)) (res_width (mutter_record lms curr0 m 0))"

definition mutter_bottom_c ::
    "mutter_logical_monitor_variant list \<Rightarrow> vdagentd_guest_xorg_resolution \<Rightarrow>
     mutter_monitor_variant \<Rightarrow> int" where
  "mutter_bottom_c lms curr0 m =
     c_int_add (res_y (mutter_record lms curr0 m 0)) (res_height (mutter_record lms curr0 m 0))"

subsection \<open>Notions used to state the properties of an apply\<close>

text \<open>
  The number of times a wait lets the client process events, and the time it sleeps, in
  microseconds.
\<close>

definition polling_iterations :: "wait_step list \<Rightarrow> nat" where
  "polling_iterations steps = length (filter (\<lambda>a. a = Process_events) steps)"

fun step_sleep :: "wait_step \<Rightarrow> nat" where
  "step_sleep (Sleep_us n) = n"
| "step_sleep Process_events = 0"
| "step_sleep (Blocking_call t) = 0"

definition slept_us :: "wait_step list \<Rightarrow> nat" where
  "slept_us steps = sum_list (map step_sleep steps)"

text \<open>A parsed monitor with its primary flag forgotten.\<close>

definition clear_primary :: "MutterMonitorInfo \<Rightarrow> MutterMonitorInfo" where
  "clear_primary info = info\<lparr>is_primary := False\<rparr>"

subsection \<open>Example snapshots\<close>

text \<open>
  The outputs of the specification's examples: Virtual-1, 1920x1080 at (0, 0), with the
  modes 1920x1080 at 60 Hz and 75 Hz and 1280x720 at 60 Hz; Virtual-2, 1280x1024 at
  (1920, 0).
\<close>

definition ex_kwin_mode :: "nat \<Rightarrow> int \<Rightarrow> int \<Rightarrow> int \<Rightarrow> KWinMode" where
  "ex_kwin_mode h w ht r =
     \<lparr>km_mode = h, km_width = w, km_height = ht, km_refresh = r,
      km_preferred = False, km_current = False\<rparr>"

definition ex_kwin_output ::
    "nat \<Rightarrow> string \<Rightarrow> int \<Rightarrow> int \<Rightarrow> int \<Rightarrow> int \<Rightarrow> KWinMode list \<Rightarrow> KWinMode option \<Rightarrow> KWinOutput" where
  "ex_kwin_output d n x y w h ms cur =
     \<lparr>ko_device = d, ko_name = Some n, ko_x = x, ko_y = y, ko_width = w, ko_height = h,
      ko_transform = 0, ko_scale = 1, ko_enabled = True, ko_modes = ms,
      ko_current_mode = cur, ko_preferred_mode = None, ko_done = True\<rparr>"

definition ex_virtual_1 :: KWinOutput where
  "ex_virtual_1 =
     ex_kwin_output 11 ''Virtual-1'' 0 0 1920 1080
       [ex_kwin_mode 1 1920 1080 60000, ex_kwin_mode 2 1920 1080 75000, ex_kwin_mode 3 1280 720 60000]
       (Some (ex_kwin_mode 1 1920 1080 60000))"

definition ex_virtual_2 :: KWinOutput where
  "ex_virtual_2 =
     ex_kwin_output 12 ''Virtual-2'' 1920 0 1280 1024
       [ex_kwin_mode 4 1280 1024 60000] (Some (ex_kwin_mode 4 1280 1024 60000))"

definition ex_disabled :: KWinOutput where
  "ex_disabled = ex_virtual_2\<lparr>ko_enabled := False\<rparr>"

definition ex_not_done :: KWinOutput where
  "ex_not_done = ex_virtual_2\<lparr>ko_name := Some ''Virtual-3'', ko_done := False\<rparr>"



definition ex_kwin :: "(string \<rightharpoonup> nat) \<Rightarrow> KWinOutput list \<Rightarrow> VDAgentKWin" where
  "ex_kwin cm outs = \<lparr>output_management = True, connector_mapping = cm, outputs = outs\<rparr>"

definition ex_mapping :: "string \<rightharpoonup> nat" where
  "ex_mapping = [''Virtual-1'' \<mapsto> 0, ''Virtual-2'' \<mapsto> 1]"

definition ex_mapping_same_id :: "string \<rightharpoonup> nat" where
  "ex_mapping_same_id = [''Virtual-1'' \<mapsto> 0, ''Virtual-2'' \<mapsto> 0]"

definition ex_res :: "int \<Rightarrow> int \<Rightarrow> int \<Rightarrow> int \<Rightarrow> int \<Rightarrow> vdagentd_guest_xorg_resolution" where
  "ex_res w h x y n = \<lparr>res_width = w, res_height = h, res_x = x, res_y = y, display_id = n\<rparr>"

definition ex_mutter_mode :: "string \<Rightarrow> int \<Rightarrow> int \<Rightarrow> real \<Rightarrow> bool option \<Rightarrow> mutter_mode_variant" where
  "ex_mutter_mode n w h r cur =
     \<lparr>mv_id = n, mv_width = w, mv_height = h, mv_refresh_rate = r,
      mv_is_current = cur, mv_is_preferred = None\<rparr>"

definition ex_logical_monitor :: "int \<Rightarrow> int \<Rightarrow> real \<Rightarrow> string \<Rightarrow> mutter_logical_monitor_variant" where
  "ex_logical_monitor x y sc conn =
     \<lparr>lm_x = x, lm_y = y, lm_scale = sc, lm_transform = 0, lm_primary = False, lm_monitors = [conn]\<rparr>"

definition ex_state :: mutter_current_state where
  "ex_state =
     \<lparr>cs_serial = 7,
      cs_monitors =
        [\<lparr>mn_connector = ''Virtual-1'',
          mn_modes = [ex_mutter_mode ''1920x1080@60'' 1920 1080 60 (Some True),
                      ex_mutter_mode ''1920x1080@75'' 1920 1080 75 None,
                      ex_mutter_mode ''1280x720@60'' 1280 720 60 None]\<rparr>,
         \<lparr>mn_connector = ''Virtual-2'',
          mn_modes = [ex_mutter_mode ''1280x1024@60'' 1280 1024 60 (Some True)]\<rparr>],
      cs_logical_monitors =
        [ex_logical_monitor 0 0 1 ''Virtual-1'', ex_logical_monitor 1920 0 2 ''Virtual-2'']\<rparr>"

definition ex_state_one_disabled :: mutter_current_state where
  "ex_state_one_disabled =
     \<lparr>cs_serial = 7,
      cs_monitors =
        [\<lparr>mn_connector = ''Virtual-1'',
          mn_modes = [ex_mutter_mode ''1920x1080@60'' 1920 1080 60 (Some True)]\<rparr>,
         \<lparr>mn_connector = ''Virtual-2'',
          mn_modes = [ex_mutter_mode ''1280x1024@60'' 1280 1024 60 None]\<rparr>],
      cs_logical_monitors = [ex_logical_monitor 0 0 1 ''Virtual-1'']\<rparr>"

definition ex_mutter :: "(string \<rightharpoonup> nat) \<Rightarrow> VDAgentMutterDBus" where
  "ex_mutter cm = \<lparr>dbus_proxy = Some 1, mutter_connector_mapping = cm\<rparr>"

text \<open>
  An output whose mode list holds 1920x1080 at 75 Hz twice, and the first Mutter monitor
  of the example state as \<^verbatim>\<open>parse_monitors_from_state\<close> reads it.
\<close>

definition ex_tied :: KWinOutput where
  "ex_tied =
     ex_kwin_output 14 ''Virtual-1'' 0 0 1920 1080
       [ex_kwin_mode 1 1920 1080 60000, ex_kwin_mode 2 1920 1080 75000,
        ex_kwin_mode 3 1280 720 60000, ex_kwin_mode 4 1920 1080 75000] None"

definition ex_info :: MutterMonitorInfo where
  "ex_info = parse_monitor ex_mapping (cs_logical_monitors ex_state) (cs_monitors ex_state ! 0)"

text \<open>
  A conversion to 24.8 fixed point for the examples, a requested layout of three entries
  (the third has no output), and the logical monitor entry of one connector.
\<close>

definition ex_fixed :: "real \<Rightarrow> int" where
  "ex_fixed d = \<lfloor>d * 256\<rfloor>"

definition ex_mc :: "nat \<Rightarrow> nat \<Rightarrow> int \<Rightarrow> int \<Rightarrow> VDAgentMonConfig" where
  "ex_mc w h x y = \<lparr>mc_height = h, mc_width = w, mc_depth = 32, mc_x = x, mc_y = y\<rparr>"

definition ex_layout :: "VDAgentMonConfig list" where
  "ex_layout = [ex_mc 1920 1080 0 0, ex_mc 1280 1024 1920 0, ex_mc 800 600 3200 0]"

definition ex_lm :: "int \<Rightarrow> int \<Rightarrow> real \<Rightarrow> bool \<Rightarrow> string \<Rightarrow> string \<Rightarrow> mutter_apply_logical_monitor" where
  "ex_lm x y sc pr conn mid =
     \<lparr>alm_x = x, alm_y = y, alm_scale = sc, alm_transform = 0, alm_primary = pr,
      alm_monitors = [\<lparr>am_connector = conn, am_mode_id = mid\<rparr>]\<rparr>"

text \<open>
  An output without any mode; Mutter states where a monitor has no mode, where the
  logical monitor has scale 0, and where Virtual-2 is reported as primary.
\<close>

definition ex_modeless :: KWinOutput where
  "ex_modeless = ex_kwin_output 15 ''Virtual-3'' 0 0 0 0 [] None"

definition ex_state_modeless :: mutter_current_state where
  "ex_state_modeless =
     \<lparr>cs_serial = 7,
      cs_monitors =
        [\<lparr>mn_connector = ''Virtual-3'', mn_modes = []\<rparr>,
         \<lparr>mn_connector = ''Virtual-2'',
          mn_modes = [ex_mutter_mode ''1280x1024@60'' 1280 1024 60 (Some True)]\<rparr>],
      cs_logical_monitors = [ex_logical_monitor 1920 0 2 ''Virtual-2'']\<rparr>"

definition ex_state_zero_scale :: mutter_current_state where
  "ex_state_zero_scale =
     \<lparr>cs_serial = 7,
      cs_monitors =
        [\<lparr>mn_connector = ''Virtual-1'',
          mn_modes = [ex_mutter_mode ''1920x1080@60'' 1920 1080 60 (Some True)]\<rparr>],
      cs_logical_monitors = [ex_logical_monitor 0 0 0 ''Virtual-1'']\<rparr>"

definition ex_state_second_primary :: mutter_current_state where
  "ex_state_second_primary =
     ex_state\<lparr>cs_logical_monitors :=
       [ex_logical_monitor 0 0 1 ''Virtual-1'',
        (ex_logical_monitor 1920 0 2 ''Virtual-2'')\<lparr>lm_primary := True\<rparr>]\<rparr>"

text \<open>
  Compositors for the examples: KWin confirming in the first roundtrip; Mutter always
  replying, and Mutter never replying in time.
\<close>

definition ex_confirm_at_once :: "nat \<Rightarrow> config_event list" where
  "ex_confirm_at_once k = [Applied]"

definition ex_always_reply :: "nat \<Rightarrow> nat \<Rightarrow> mutter_apply_logical_monitor list \<Rightarrow> dbus_outcome" where
  "ex_always_reply serial method lms = Dbus_reply"

definition ex_no_reply :: "nat \<Rightarrow> nat \<Rightarrow> mutter_apply_logical_monitor list \<Rightarrow> dbus_outcome" where
  "ex_no_reply serial method lms = Dbus_timeout"

section \<open>Properties of discovery\<close>

lemmas ex_defs = ex_kwin_mode_def ex_kwin_output_def ex_virtual_1_def ex_virtual_2_def ex_kwin_def
  ex_mapping_def ex_mapping_same_id_def ex_res_def ex_mutter_mode_def ex_logical_monitor_def
  ex_state_def ex_state_one_disabled_def ex_mutter_def

lemmas discovery_defs = vdagent_kwin_get_resolutions_def vdagent_mutter_get_resolutions_def
  choose_res_array_def grow_desktop_def kwin_lookup_def kwin_res_def mutter_res_def Let_def
  kwin_active_def kwin_mapped_def kwin_record_def mutter_active_def mutter_mapped_def mutter_record_def
  kwin_right_def kwin_bottom_def mutter_right_def mutter_bottom_def
  kwin_right_c_def kwin_bottom_c_def mutter_right_c_def mutter_bottom_c_def c_int_add_def fits_int_def

subsection \<open>The two loops in closed form\<close>

lemma grow_desktop_arrays [simp]:
  "gr_res_array (grow_desktop r s) = gr_res_array s"
  "gr_not_found_array (grow_desktop r s) = gr_not_found_array s"
  "gr_screen_count (grow_desktop r s) = gr_screen_count s"
  by (simp_all add: grow_desktop_def Let_def)

lemma grow_desktop_size [simp]:
  "gr_width (grow_desktop r s) = max (gr_width s) (c_int_add (res_x r) (res_width r))"
  "gr_height (grow_desktop r s) = max (gr_height s) (c_int_add (res_y r) (res_height r))"
  by (simp_all add: grow_desktop_def Let_def max_def)

lemma Max_insert_max:
  "finite A \<Longrightarrow> Max (insert (max a b) A) = Max (insert a (insert (b::int) A))"
  by (cases "A = {}") (auto simp: max.assoc)

lemma filter_all_unmapped:
  "filter P xs = [] \<Longrightarrow> filter (\<lambda>x. \<not> P x) xs = xs"
  by (induction xs) (auto split: if_splits)

lemma assign_monitor_index_map:
  "assign_monitor_index i (map f xs) = map (\<lambda>(j, x). (f x)\<lparr>display_id := int j\<rparr>) (enumerate i xs)"
  by (induction xs arbitrary: i) auto

lemma assign_monitor_index_forget:
  "assign_monitor_index i (map (\<lambda>r. r\<lparr>display_id := n\<rparr>) rs) = assign_monitor_index i rs"
  by (induction rs arbitrary: i) auto

lemma index_ids:
  assumes "\<And>x i. display_id (f x i) = int i"
  shows "map display_id (map (\<lambda>(i, x). f x i) (enumerate n xs)) = map int [n..<n + length xs]"
  using assms by (induction xs arbitrary: n) (auto simp: upt_rec)

lemma distinct_index_ids:
  assumes "\<And>x i. display_id (f x i) = int i"
  shows "distinct (map display_id (map (\<lambda>(i, x). f x i) (enumerate n xs)))"
  unfolding index_ids [OF assms] by (simp add: distinct_map)

lemma kwin_scan_res_array:
  "gr_res_array (kwin_scan_outputs cm outs s) =
     gr_res_array s @ map (\<lambda>out. kwin_record out (int (the (kwin_lookup cm out)))) (kwin_mapped cm outs)"
  by (induction outs arbitrary: s)
     (auto simp: kwin_mapped_def kwin_active_def kwin_record_def Let_def split: option.splits)

lemma kwin_scan_not_found_array:
  "gr_not_found_array (kwin_scan_outputs cm outs s) =
     gr_not_found_array s @ map kwin_res (filter (\<lambda>out. kwin_lookup cm out = None) (kwin_active outs))"
  by (induction outs arbitrary: s)
     (auto simp: kwin_active_def Let_def split: option.splits)

lemma kwin_scan_screen_count:
  "gr_screen_count (kwin_scan_outputs cm outs s) = gr_screen_count s + int (length (kwin_active outs))"
  by (induction outs arbitrary: s)
     (auto simp: kwin_active_def Let_def split: option.splits)

lemma kwin_scan_width:
  "gr_width (kwin_scan_outputs cm outs s) =
     Max (insert (gr_width s) (kwin_right_c ` set (kwin_active outs)))"
  by (induction outs arbitrary: s)
     (auto simp: kwin_active_def Let_def kwin_res_def kwin_right_c_def kwin_bottom_c_def Max_insert_max
           split: option.splits)

lemma kwin_scan_height:
  "gr_height (kwin_scan_outputs cm outs s) =
     Max (insert (gr_height s) (kwin_bottom_c ` set (kwin_active outs)))"
  by (induction outs arbitrary: s)
     (auto simp: kwin_active_def Let_def kwin_res_def kwin_right_c_def kwin_bottom_c_def Max_insert_max
           split: option.splits)

lemma mutter_scan_res_array:
  "gr_res_array (mutter_scan_monitors cm lms curr0 ms s) =
     gr_res_array s @
     map (\<lambda>m. mutter_record lms curr0 m (int (the (cm (mn_connector m))))) (mutter_mapped cm ms)"
  by (induction ms arbitrary: s)
     (auto simp: mutter_mapped_def mutter_active_def mutter_record_def Let_def split: option.splits)

lemma mutter_scan_not_found_array:
  "map (\<lambda>r. r\<lparr>display_id := 0\<rparr>) (gr_not_found_array (mutter_scan_monitors cm lms curr0 ms s)) =
     map (\<lambda>r. r\<lparr>display_id := 0\<rparr>) (gr_not_found_array s) @
     map (\<lambda>m. mutter_record lms curr0 m 0)
       (filter (\<lambda>m. cm (mn_connector m) = None) (mutter_active ms))"
  by (induction ms arbitrary: s)
     (auto simp: mutter_active_def mutter_record_def Let_def split: option.splits)

lemma mutter_scan_screen_count:
  "gr_screen_count (mutter_scan_monitors cm lms curr0 ms s) = gr_screen_count s"
  by (induction ms arbitrary: s) (auto simp: Let_def split: option.splits)

lemma mutter_scan_width:
  "gr_width (mutter_scan_monitors cm lms curr0 ms s) =
     Max (insert (gr_width s)
       (mutter_right_c lms curr0 `
          set (mutter_active ms)))"
  by (induction ms arbitrary: s)
     (auto simp: mutter_active_def mutter_record_def mutter_right_c_def mutter_bottom_c_def Let_def
           Max_insert_max split: option.splits)

lemma mutter_scan_height:
  "gr_height (mutter_scan_monitors cm lms curr0 ms s) =
     Max (insert (gr_height s)
       (mutter_bottom_c lms curr0 `
          set (mutter_active ms)))"
  by (induction ms arbitrary: s)
     (auto simp: mutter_active_def mutter_record_def mutter_right_c_def mutter_bottom_c_def Let_def
           Max_insert_max split: option.splits)

text \<open>
  A successful KWin discovery returns the mapped records when there is one, else every
  record with its index; the desktop size starts from 0; the count is that of the enabled,
  ready outputs.
\<close>

lemma kwin_get_resolutions_eq:
  assumes "output_management kwin"
  shows "vdagent_kwin_get_resolutions (Some kwin) =
     Some ((if kwin_mapped (connector_mapping kwin) (outputs kwin) \<noteq> []
            then map (\<lambda>out. kwin_record out (int (the (kwin_lookup (connector_mapping kwin) out))))
                   (kwin_mapped (connector_mapping kwin) (outputs kwin))
            else map (\<lambda>(i, out). kwin_record out (int i)) (enumerate 0 (kwin_active (outputs kwin)))),
           Max (insert 0 (kwin_right_c ` set (kwin_active (outputs kwin)))),
           Max (insert 0 (kwin_bottom_c ` set (kwin_active (outputs kwin)))),
           int (length (kwin_active (outputs kwin))))"
proof -
  let ?cm = "connector_mapping kwin" and ?outs = "outputs kwin"
  have unm: "filter (\<lambda>out. kwin_lookup ?cm out = None) (kwin_active ?outs) = kwin_active ?outs"
    if "kwin_mapped ?cm ?outs = []"
    using that filter_all_unmapped [of "\<lambda>out. kwin_lookup ?cm out \<noteq> None" "kwin_active ?outs"]
    by (simp add: kwin_mapped_def)
  show ?thesis
    using assms
    by (simp add: vdagent_kwin_get_resolutions_def Let_def choose_res_array_def
        kwin_scan_res_array kwin_scan_not_found_array kwin_scan_screen_count
        kwin_scan_width kwin_scan_height assign_monitor_index_map unm kwin_record_def)
qed

text \<open>
  The same for Mutter, where the desktop size starts from what the caller left in the
  out-parameters and the count is that of all monitors of the reply.
\<close>

lemma mutter_get_resolutions_eq:
  "vdagent_mutter_get_resolutions (Some mutter) (Some values) curr0 dw dh =
     Some ((if mutter_mapped (mutter_connector_mapping mutter) (cs_monitors values) \<noteq> []
            then map (\<lambda>m. mutter_record (cs_logical_monitors values) curr0 m
                            (int (the (mutter_connector_mapping mutter (mn_connector m)))))
                   (mutter_mapped (mutter_connector_mapping mutter) (cs_monitors values))
            else map (\<lambda>(i, m). mutter_record (cs_logical_monitors values) curr0 m (int i))
                   (enumerate 0 (mutter_active (cs_monitors values)))),
           Max (insert dw (mutter_right_c (cs_logical_monitors values) curr0 `
                  set (mutter_active (cs_monitors values)))),
           Max (insert dh (mutter_bottom_c (cs_logical_monitors values) curr0 `
                  set (mutter_active (cs_monitors values)))),
           int (length (cs_monitors values)))"
proof -
  let ?cm = "mutter_connector_mapping mutter" and ?ms = "cs_monitors values"
  let ?lms = "cs_logical_monitors values"
  let ?s0 = "\<lparr>gr_res_array = [], gr_not_found_array = [], gr_width = dw, gr_height = dh,
               gr_screen_count = int (length ?ms)\<rparr>"
  let ?s = "mutter_scan_monitors ?cm ?lms curr0 ?ms ?s0"
  have unm: "filter (\<lambda>m. ?cm (mn_connector m) = None) (mutter_active ?ms) = mutter_active ?ms"
    if "mutter_mapped ?cm ?ms = []"
    using that filter_all_unmapped [of "\<lambda>m. ?cm (mn_connector m) \<noteq> None" "mutter_active ?ms"]
    by (simp add: mutter_mapped_def)
  have nf: "assign_monitor_index 0 (gr_not_found_array ?s) =
      map (\<lambda>(i, m). mutter_record ?lms curr0 m (int i)) (enumerate 0 (mutter_active ?ms))"
    if "mutter_mapped ?cm ?ms = []"
  proof -
    have "assign_monitor_index 0 (gr_not_found_array ?s) =
        assign_monitor_index 0 (map (\<lambda>r. r\<lparr>display_id := 0\<rparr>) (gr_not_found_array ?s))"
      by (simp add: assign_monitor_index_forget)
    also have "\<dots> = assign_monitor_index 0 (map (\<lambda>m. mutter_record ?lms curr0 m 0) (mutter_active ?ms))"
      by (simp add: mutter_scan_not_found_array unm [OF that])
    also have "\<dots> = map (\<lambda>(i, m). mutter_record ?lms curr0 m (int i)) (enumerate 0 (mutter_active ?ms))"
      by (simp add: assign_monitor_index_map mutter_record_def)
    finally show ?thesis .
  qed
  show ?thesis
    by (simp add: vdagent_mutter_get_resolutions_def Let_def choose_res_array_def
        mutter_scan_res_array mutter_scan_screen_count mutter_scan_width mutter_scan_height nf)
qed

subsection \<open>C1: mapped records, or all records by index\<close>



subsection \<open>C2: the desktop bounds\<close>







subsection \<open>C8: the screen count\<close>

text \<open>
  Claim C8 says that the screen count is the number of enabled, ready outputs. The Mutter
  backend returns the number of monitors in the reply: with Virtual-1 enabled and
  Virtual-2 without a current mode the count is 2, and one monitor is enabled.
\<close>

theorem screen_count_counterexample:
  "vdagent_mutter_get_resolutions (Some (ex_mutter ex_mapping)) (Some ex_state_one_disabled)
       (ex_res 0 0 0 0 0) 0 0 =
     Some ([ex_res 1920 1080 0 0 0], 1920, 1080, 2)
   \<and> length (mutter_active (cs_monitors ex_state_one_disabled)) = 1"
  by (simp add: ex_defs discovery_defs)

text \<open>
  Claim C8, amended. A successful KWin discovery returns as screen count the number of
  enabled, ready outputs, counted before the mapping is consulted; a successful Mutter
  discovery returns the number of monitors of the reply, enabled or not.
\<close>

theorem screen_count_per_backend:
  assumes "output_management kwin"
  shows "(\<exists>res w h. vdagent_kwin_get_resolutions (Some kwin) =
            Some (res, w, h, int (length (kwin_active (outputs kwin)))))
       \<and> (\<exists>res w h. vdagent_mutter_get_resolutions (Some mutter) (Some values) curr0 dw dh =
            Some (res, w, h, int (length (cs_monitors values))))"
  using kwin_get_resolutions_eq [OF assms] mutter_get_resolutions_eq [of mutter "values" curr0 dw dh]
  by simp

text \<open>
  Four KWin outputs of which one is disabled and one not done; two Mutter monitors of
  which one has no current mode.
\<close>

theorem screen_count_per_backend_witness:
  "output_management (ex_kwin [''Virtual-2'' \<mapsto> 5] [ex_virtual_1, ex_disabled, ex_virtual_2, ex_not_done])
   \<and> (\<exists>res w h. vdagent_kwin_get_resolutions
         (Some (ex_kwin [''Virtual-2'' \<mapsto> 5] [ex_virtual_1, ex_disabled, ex_virtual_2, ex_not_done])) =
         Some (res, w, h, 2))
   \<and> (\<exists>res w h. vdagent_mutter_get_resolutions (Some (ex_mutter ex_mapping))
         (Some ex_state_one_disabled) (ex_res 0 0 0 0 0) 0 0 =
         Some (res, w, h, 2))"
  using screen_count_per_backend
          [of "ex_kwin [''Virtual-2'' \<mapsto> 5] [ex_virtual_1, ex_disabled, ex_virtual_2, ex_not_done]"
              "ex_mutter ex_mapping" ex_state_one_disabled "ex_res 0 0 0 0 0" 0 0]
  by (simp add: ex_defs ex_disabled_def ex_not_done_def discovery_defs)

subsection \<open>C9: display ids within one result\<close>

text \<open>
  Claim C9 says that the display ids of one discovery result are pairwise distinct. A
  mapping that sends Virtual-1 and Virtual-2 to the same id gives two records with id 0,
  and so do two outputs that both report the connector name Virtual-1.
\<close>

theorem display_ids_counterexample:
  "vdagent_kwin_get_resolutions (Some (ex_kwin ex_mapping_same_id [ex_virtual_1, ex_virtual_2])) =
     Some ([ex_res 1920 1080 0 0 0, ex_res 1280 1024 1920 0 0], 3200, 1080, 2)
   \<and> \<not> distinct (map display_id [ex_res 1920 1080 0 0 0, ex_res 1280 1024 1920 0 0])
   \<and> vdagent_kwin_get_resolutions (Some (ex_kwin ex_mapping [ex_virtual_1, ex_virtual_1])) =
     Some ([ex_res 1920 1080 0 0 0, ex_res 1920 1080 0 0 0], 1920, 1080, 2)
   \<and> \<not> distinct (map display_id [ex_res 1920 1080 0 0 0, ex_res 1920 1080 0 0 0])"
  by (simp add: ex_defs discovery_defs)

lemma distinct_looked_up_ids:
  fixes name :: "'a \<Rightarrow> string option"
  assumes inj: "inj_on cm (dom cm)"
    and names: "distinct (map name xs)"
    and mapped: "\<forall>x\<in>set xs. \<exists>n. name x = Some n \<and> n \<in> dom cm \<and> look x = cm n"
  shows "distinct (map (\<lambda>x. int (the (look x))) xs)"
proof -
  have "inj_on (\<lambda>x. int (the (look x))) (set xs)"
  proof (rule inj_onI)
    fix x y assume x: "x \<in> set xs" and y: "y \<in> set xs"
      and eq: "int (the (look x)) = int (the (look y))"
    from x mapped obtain a where a: "name x = Some a" "a \<in> dom cm" "look x = cm a" by blast
    from y mapped obtain b where b: "name y = Some b" "b \<in> dom cm" "look y = cm b" by blast
    from a b eq have "cm a = cm b" by auto
    with inj a b have "a = b" by (auto dest: inj_onD)
    with a b have "name x = name y" by simp
    with names x y show "x = y" by (meson distinct_map inj_onD)
  qed
  moreover from names have "distinct xs" by (simp add: distinct_map)
  ultimately show ?thesis by (simp add: distinct_map)
qed

lemma kwin_mapped_ids_distinct:
  assumes "inj_on cm (dom cm)" and "distinct (map ko_name (kwin_mapped cm outs))"
  shows "distinct (map display_id
           (map (\<lambda>out. kwin_record out (int (the (kwin_lookup cm out)))) (kwin_mapped cm outs)))"
proof -
  have "\<forall>x\<in>set (kwin_mapped cm outs). \<exists>n. ko_name x = Some n \<and> n \<in> dom cm \<and> kwin_lookup cm x = cm n"
    by (auto simp: kwin_mapped_def kwin_lookup_def split: option.splits)
  from distinct_looked_up_ids [OF assms this]
  show ?thesis by (simp add: kwin_record_def comp_def)
qed

lemma mutter_mapped_ids_distinct:
  assumes "inj_on cm (dom cm)" and "distinct (map mn_connector (mutter_mapped cm ms))"
  shows "distinct (map display_id
           (map (\<lambda>m. mutter_record lms curr0 m (int (the (cm (mn_connector m))))) (mutter_mapped cm ms)))"
proof -
  have m: "\<forall>x\<in>set (mutter_mapped cm ms).
      \<exists>n. Some (mn_connector x) = Some n \<and> n \<in> dom cm \<and> cm (mn_connector x) = cm n"
    by (auto simp: mutter_mapped_def)
  have d: "distinct (map (\<lambda>x. Some (mn_connector x)) (mutter_mapped cm ms))"
    using assms(2) by (simp add: distinct_map inj_on_def)
  from distinct_looked_up_ids [OF assms(1) d m]
  show ?thesis by (simp add: mutter_record_def comp_def)
qed

text \<open>
  Claim C9, amended. The display ids of one discovery result are pairwise distinct in the
  fallback branch (no enabled, ready output is mapped); in the mapped branch they are
  pairwise distinct when the connector mapping sends different connector names to
  different ids and the mapped outputs have pairwise different connector names.
\<close>

theorem display_ids_distinct_when_mapping_injective:
  assumes "output_management kwin"
    and "kwin_mapped (connector_mapping kwin) (outputs kwin) = []
         \<or> (inj_on (connector_mapping kwin) (dom (connector_mapping kwin))
            \<and> distinct (map ko_name (kwin_mapped (connector_mapping kwin) (outputs kwin))))"
    and "mutter_mapped (mutter_connector_mapping mutter) (cs_monitors values) = []
         \<or> (inj_on (mutter_connector_mapping mutter) (dom (mutter_connector_mapping mutter))
            \<and> distinct (map mn_connector
                 (mutter_mapped (mutter_connector_mapping mutter) (cs_monitors values))))"
  shows "(\<exists>res w h c. vdagent_kwin_get_resolutions (Some kwin) = Some (res, w, h, c)
            \<and> distinct (map display_id res))
       \<and> (\<exists>res w h c. vdagent_mutter_get_resolutions (Some mutter) (Some values) curr0 dw dh =
              Some (res, w, h, c)
            \<and> distinct (map display_id res))"
proof
  have "distinct (map display_id
      (map (\<lambda>(i, out). kwin_record out (int i)) (enumerate 0 (kwin_active (outputs kwin)))))"
    by (rule distinct_index_ids) (simp add: kwin_record_def)
  with assms(2) kwin_mapped_ids_distinct [of "connector_mapping kwin" "outputs kwin"]
  show "\<exists>res w h c. vdagent_kwin_get_resolutions (Some kwin) = Some (res, w, h, c)
            \<and> distinct (map display_id res)"
    unfolding kwin_get_resolutions_eq [OF assms(1)] by auto
next
  have "distinct (map display_id
      (map (\<lambda>(i, m). mutter_record (cs_logical_monitors values) curr0 m (int i))
         (enumerate 0 (mutter_active (cs_monitors values)))))"
    by (rule distinct_index_ids) (simp add: mutter_record_def)
  with assms(3) mutter_mapped_ids_distinct
         [of "mutter_connector_mapping mutter" "cs_monitors values" "cs_logical_monitors values" curr0]
  show "\<exists>res w h c. vdagent_mutter_get_resolutions (Some mutter) (Some values) curr0 dw dh =
              Some (res, w, h, c) \<and> distinct (map display_id res)"
    unfolding mutter_get_resolutions_eq by auto
qed

text \<open>The mapped branch on KWin and the fallback branch on Mutter.\<close>

theorem display_ids_distinct_when_mapping_injective_witness:
  "output_management (ex_kwin ex_mapping [ex_virtual_1, ex_virtual_2])
   \<and> kwin_mapped ex_mapping [ex_virtual_1, ex_virtual_2] \<noteq> []
   \<and> inj_on ex_mapping (dom ex_mapping)
   \<and> distinct (map ko_name (kwin_mapped ex_mapping [ex_virtual_1, ex_virtual_2]))
   \<and> mutter_mapped Map.empty (cs_monitors ex_state) = []
   \<and> (\<exists>res w h c. vdagent_kwin_get_resolutions (Some (ex_kwin ex_mapping [ex_virtual_1, ex_virtual_2])) =
          Some (res, w, h, c) \<and> distinct (map display_id res))
   \<and> (\<exists>res w h c. vdagent_mutter_get_resolutions (Some (ex_mutter Map.empty)) (Some ex_state)
          (ex_res 0 0 0 0 0) 0 0 = Some (res, w, h, c) \<and> distinct (map display_id res))"
proof -
  have k: "output_management (ex_kwin ex_mapping [ex_virtual_1, ex_virtual_2])"
    by (simp add: ex_defs)
  have i: "inj_on ex_mapping (dom ex_mapping)"
    by (simp add: ex_defs inj_on_def dom_def)
  have n: "kwin_mapped ex_mapping [ex_virtual_1, ex_virtual_2] = [ex_virtual_1, ex_virtual_2]"
    by (simp add: ex_defs discovery_defs)
  have d: "distinct (map ko_name (kwin_mapped ex_mapping [ex_virtual_1, ex_virtual_2]))"
    unfolding n by (simp add: ex_defs)
  have m: "mutter_mapped Map.empty (cs_monitors ex_state) = []"
    by (simp add: ex_defs discovery_defs)
  show ?thesis
    using k i d m n
      display_ids_distinct_when_mapping_injective
        [of "ex_kwin ex_mapping [ex_virtual_1, ex_virtual_2]" "ex_mutter Map.empty" ex_state
            "ex_res 0 0 0 0 0" 0 0]
    by (simp add: ex_kwin_def ex_mutter_def)
qed

section \<open>Properties of mode selection\<close>

lemmas mode_defs = kwin_find_mode_def find_mode_for_resolution_def parse_monitor_def
  parse_monitor_modes_def parse_mode_def Let_def

text \<open>
  The loop of \<^verbatim>\<open>kwin_find_mode\<close> returns nothing exactly when it starts with nothing and no
  mode matches; what it returns is the mode it started with, if no later match has a
  higher refresh rate, or a matching mode of the list that beats every match before it and
  is not beaten by any match after it.
\<close>

lemma kwin_find_mode_loop_None:
  "kwin_find_mode_loop ms w h best br = None \<longleftrightarrow>
     best = None \<and> (\<forall>m\<in>set ms. \<not> (km_width m = w \<and> km_height m = h))"
  by (induction ms arbitrary: best br) auto

lemma kwin_find_mode_loop_Some:
  assumes "kwin_find_mode_loop ms w h best br = Some r"
    and "\<forall>b. best = Some b \<longrightarrow> br = km_refresh b"
  shows "(best = Some r \<and> (\<forall>q\<in>set ms. km_width q = w \<and> km_height q = h \<longrightarrow> km_refresh q \<le> km_refresh r))
       \<or> (\<exists>pre post. ms = pre @ r # post \<and> km_width r = w \<and> km_height r = h
            \<and> (\<forall>p\<in>set pre. km_width p = w \<and> km_height p = h \<longrightarrow> km_refresh p < km_refresh r)
            \<and> (\<forall>q\<in>set post. km_width q = w \<and> km_height q = h \<longrightarrow> km_refresh q \<le> km_refresh r)
            \<and> (\<forall>b. best = Some b \<longrightarrow> km_refresh b < km_refresh r))"
  using assms
proof (induction ms arbitrary: best br)
  case Nil
  then show ?case by simp
next
  case (Cons m rest)
  let ?match = "\<lambda>q. km_width q = w \<and> km_height q = h"
  show ?case
  proof (cases "?match m \<and> (best = None \<or> km_refresh m > br)")
    case True
    with Cons.prems have run: "kwin_find_mode_loop rest w h (Some m) (km_refresh m) = Some r"
      by simp
    from Cons.IH [OF run] consider
        (kept) "r = m" "\<forall>q\<in>set rest. ?match q \<longrightarrow> km_refresh q \<le> km_refresh r"
      | (later) pre post where "rest = pre @ r # post" "?match r"
          "\<forall>p\<in>set pre. ?match p \<longrightarrow> km_refresh p < km_refresh r"
          "\<forall>q\<in>set post. ?match q \<longrightarrow> km_refresh q \<le> km_refresh r"
          "km_refresh m < km_refresh r"
      by auto
    then show ?thesis
    proof cases
      case kept
      with True Cons.prems(2) have "m # rest = [] @ r # rest \<and> ?match r
          \<and> (\<forall>b. best = Some b \<longrightarrow> km_refresh b < km_refresh r)"
        by auto
      with kept show ?thesis by (metis empty_iff list.set(1))
    next
      case later
      with True Cons.prems(2) have "m # rest = (m # pre) @ r # post
          \<and> (\<forall>p\<in>set (m # pre). ?match p \<longrightarrow> km_refresh p < km_refresh r)
          \<and> (\<forall>b. best = Some b \<longrightarrow> km_refresh b < km_refresh r)"
        by auto
      with later show ?thesis by blast
    qed
  next
    case False
    with Cons.prems have run: "kwin_find_mode_loop rest w h best br = Some r"
      by (auto split: if_splits)
    from False Cons.prems(2) have low: "?match m \<Longrightarrow> \<exists>b. best = Some b \<and> km_refresh m \<le> km_refresh b"
      by auto
    from Cons.IH [OF run Cons.prems(2)] consider
        (kept) "best = Some r" "\<forall>q\<in>set rest. ?match q \<longrightarrow> km_refresh q \<le> km_refresh r"
      | (later) pre post where "rest = pre @ r # post" "?match r"
          "\<forall>p\<in>set pre. ?match p \<longrightarrow> km_refresh p < km_refresh r"
          "\<forall>q\<in>set post. ?match q \<longrightarrow> km_refresh q \<le> km_refresh r"
          "\<forall>b. best = Some b \<longrightarrow> km_refresh b < km_refresh r"
      by auto
    then show ?thesis
    proof cases
      case kept
      with low show ?thesis by auto
    next
      case later
      with low have "m # rest = (m # pre) @ r # post
          \<and> (\<forall>p\<in>set (m # pre). ?match p \<longrightarrow> km_refresh p < km_refresh r)"
        by fastforce
      with later show ?thesis by blast
    qed
  qed
qed

text \<open>The same two facts for the loop of \<^verbatim>\<open>find_mode_for_resolution\<close>.\<close>

lemma find_mode_loop_None:
  "find_mode_loop ms w h best br = None \<longleftrightarrow>
     best = None \<and> (\<forall>m\<in>set ms. \<not> (mi_width m = w \<and> mi_height m = h))"
  by (induction ms arbitrary: best br) auto

lemma find_mode_loop_Some:
  assumes "find_mode_loop ms w h best br = Some r"
    and "\<forall>b. best = Some b \<longrightarrow> br = refresh_rate b"
  shows "(best = Some r \<and> (\<forall>q\<in>set ms. mi_width q = w \<and> mi_height q = h \<longrightarrow> refresh_rate q \<le> refresh_rate r))
       \<or> (\<exists>pre post. ms = pre @ r # post \<and> mi_width r = w \<and> mi_height r = h
            \<and> (\<forall>p\<in>set pre. mi_width p = w \<and> mi_height p = h \<longrightarrow> refresh_rate p < refresh_rate r)
            \<and> (\<forall>q\<in>set post. mi_width q = w \<and> mi_height q = h \<longrightarrow> refresh_rate q \<le> refresh_rate r)
            \<and> (\<forall>b. best = Some b \<longrightarrow> refresh_rate b < refresh_rate r))"
  using assms
proof (induction ms arbitrary: best br)
  case Nil
  then show ?case by simp
next
  case (Cons m rest)
  let ?match = "\<lambda>q. mi_width q = w \<and> mi_height q = h"
  show ?case
  proof (cases "?match m \<and> (best = None \<or> refresh_rate m > br)")
    case True
    with Cons.prems have run: "find_mode_loop rest w h (Some m) (refresh_rate m) = Some r"
      by simp
    from Cons.IH [OF run] consider
        (kept) "r = m" "\<forall>q\<in>set rest. ?match q \<longrightarrow> refresh_rate q \<le> refresh_rate r"
      | (later) pre post where "rest = pre @ r # post" "?match r"
          "\<forall>p\<in>set pre. ?match p \<longrightarrow> refresh_rate p < refresh_rate r"
          "\<forall>q\<in>set post. ?match q \<longrightarrow> refresh_rate q \<le> refresh_rate r"
          "refresh_rate m < refresh_rate r"
      by auto
    then show ?thesis
    proof cases
      case kept
      with True Cons.prems(2) have "m # rest = [] @ r # rest \<and> ?match r
          \<and> (\<forall>b. best = Some b \<longrightarrow> refresh_rate b < refresh_rate r)"
        by auto
      with kept show ?thesis by (metis empty_iff list.set(1))
    next
      case later
      with True Cons.prems(2) have "m # rest = (m # pre) @ r # post
          \<and> (\<forall>p\<in>set (m # pre). ?match p \<longrightarrow> refresh_rate p < refresh_rate r)
          \<and> (\<forall>b. best = Some b \<longrightarrow> refresh_rate b < refresh_rate r)"
        by auto
      with later show ?thesis by blast
    qed
  next
    case False
    with Cons.prems have run: "find_mode_loop rest w h best br = Some r"
      by (auto split: if_splits)
    from False Cons.prems(2) have low: "?match m \<Longrightarrow> \<exists>b. best = Some b \<and> refresh_rate m \<le> refresh_rate b"
      by auto
    from Cons.IH [OF run Cons.prems(2)] consider
        (kept) "best = Some r" "\<forall>q\<in>set rest. ?match q \<longrightarrow> refresh_rate q \<le> refresh_rate r"
      | (later) pre post where "rest = pre @ r # post" "?match r"
          "\<forall>p\<in>set pre. ?match p \<longrightarrow> refresh_rate p < refresh_rate r"
          "\<forall>q\<in>set post. ?match q \<longrightarrow> refresh_rate q \<le> refresh_rate r"
          "\<forall>b. best = Some b \<longrightarrow> refresh_rate b < refresh_rate r"
      by auto
    then show ?thesis
    proof cases
      case kept
      with low show ?thesis by auto
    next
      case later
      with low have "m # rest = (m # pre) @ r # post
          \<and> (\<forall>p\<in>set (m # pre). ?match p \<longrightarrow> refresh_rate p < refresh_rate r)"
        by fastforce
      with later show ?thesis by blast
    qed
  qed
qed

subsection \<open>C3: the first mode of the highest refresh rate\<close>

text \<open>
  Claim C3. For every output and requested width and height, the mode selector returns no
  mode exactly when no mode of the list has the requested width and height; a mode it
  returns has exactly that width and height, sits in the mode list, has a refresh rate
  that no matching mode exceeds, and every matching mode before it in the list has a
  strictly lower refresh rate (so it is the first of those at the maximum). This holds for
  \<^verbatim>\<open>kwin_find_mode\<close> and for \<^verbatim>\<open>find_mode_for_resolution\<close>, which returns the id of that mode.
\<close>

theorem mode_selector_first_of_highest_refresh:
  "(kwin_find_mode output w h = None \<longleftrightarrow>
      (\<forall>m\<in>set (ko_modes output). \<not> (km_width m = w \<and> km_height m = h)))
   \<and> (\<forall>r. kwin_find_mode output w h = Some r \<longrightarrow>
        (\<exists>pre post. ko_modes output = pre @ r # post \<and> km_width r = w \<and> km_height r = h
           \<and> (\<forall>p\<in>set pre. km_width p = w \<and> km_height p = h \<longrightarrow> km_refresh p < km_refresh r)
           \<and> (\<forall>q\<in>set post. km_width q = w \<and> km_height q = h \<longrightarrow> km_refresh q \<le> km_refresh r)))
   \<and> (find_mode_for_resolution info w h = None \<longleftrightarrow>
        (\<forall>m\<in>set (modes info). \<not> (mi_width m = w \<and> mi_height m = h)))
   \<and> (\<forall>mid. find_mode_for_resolution info w h = Some mid \<longrightarrow>
        (\<exists>pre r post. modes info = pre @ r # post \<and> mode_id r = mid
           \<and> mi_width r = w \<and> mi_height r = h
           \<and> (\<forall>p\<in>set pre. mi_width p = w \<and> mi_height p = h \<longrightarrow> refresh_rate p < refresh_rate r)
           \<and> (\<forall>q\<in>set post. mi_width q = w \<and> mi_height q = h \<longrightarrow> refresh_rate q \<le> refresh_rate r)))"
proof (intro conjI allI impI)
  show "kwin_find_mode output w h = None \<longleftrightarrow>
      (\<forall>m\<in>set (ko_modes output). \<not> (km_width m = w \<and> km_height m = h))"
    by (simp add: kwin_find_mode_def kwin_find_mode_loop_None)
next
  fix r assume "kwin_find_mode output w h = Some r"
  then have "kwin_find_mode_loop (ko_modes output) w h None 0 = Some r"
    by (simp add: kwin_find_mode_def)
  from kwin_find_mode_loop_Some [OF this]
  show "\<exists>pre post. ko_modes output = pre @ r # post \<and> km_width r = w \<and> km_height r = h
           \<and> (\<forall>p\<in>set pre. km_width p = w \<and> km_height p = h \<longrightarrow> km_refresh p < km_refresh r)
           \<and> (\<forall>q\<in>set post. km_width q = w \<and> km_height q = h \<longrightarrow> km_refresh q \<le> km_refresh r)"
    by auto
next
  show "find_mode_for_resolution info w h = None \<longleftrightarrow>
        (\<forall>m\<in>set (modes info). \<not> (mi_width m = w \<and> mi_height m = h))"
    by (simp add: find_mode_for_resolution_def find_mode_loop_None split: option.splits)
       (metis find_mode_loop_None option.distinct(1))
next
  fix mid assume "find_mode_for_resolution info w h = Some mid"
  then obtain r where run: "find_mode_loop (modes info) w h None 0 = Some r" and "mode_id r = mid"
    by (auto simp: find_mode_for_resolution_def split: option.splits)
  with find_mode_loop_Some [OF run]
  show "\<exists>pre r post. modes info = pre @ r # post \<and> mode_id r = mid
           \<and> mi_width r = w \<and> mi_height r = h
           \<and> (\<forall>p\<in>set pre. mi_width p = w \<and> mi_height p = h \<longrightarrow> refresh_rate p < refresh_rate r)
           \<and> (\<forall>q\<in>set post. mi_width q = w \<and> mi_height q = h \<longrightarrow> refresh_rate q \<le> refresh_rate r)"
    by auto
qed

text \<open>
  The specification's example, modes (1920, 1080, 60000), (1920, 1080, 75000) and
  (1280, 720, 60000): selecting 1920x1080 returns the 75000 mHz mode, also when a later
  mode ties with it; selecting 2560x1440 returns nothing.
\<close>

theorem mode_selector_first_of_highest_refresh_witness:
  "kwin_find_mode ex_virtual_1 1920 1080 = Some (ex_kwin_mode 2 1920 1080 75000)
   \<and> kwin_find_mode ex_tied 1920 1080 = Some (ex_kwin_mode 2 1920 1080 75000)
   \<and> kwin_find_mode ex_virtual_1 2560 1440 = None
   \<and> find_mode_for_resolution ex_info 1920 1080 = Some ''1920x1080@75''
   \<and> find_mode_for_resolution ex_info 2560 1440 = None
   \<and> (\<exists>pre post. ko_modes ex_tied = pre @ ex_kwin_mode 2 1920 1080 75000 # post
         \<and> (\<forall>p\<in>set pre. km_width p = 1920 \<and> km_height p = 1080 \<longrightarrow> km_refresh p < 75000)
         \<and> (\<forall>q\<in>set post. km_width q = 1920 \<and> km_height q = 1080 \<longrightarrow> km_refresh q \<le> 75000))"
proof -
  have a: "kwin_find_mode ex_tied 1920 1080 = Some (ex_kwin_mode 2 1920 1080 75000)"
    by (simp add: ex_defs ex_tied_def mode_defs)
  have b: "kwin_find_mode ex_virtual_1 1920 1080 = Some (ex_kwin_mode 2 1920 1080 75000)"
    "kwin_find_mode ex_virtual_1 2560 1440 = None"
    by (simp_all add: ex_defs mode_defs)
  have c: "find_mode_for_resolution ex_info 1920 1080 = Some ''1920x1080@75''"
    "find_mode_for_resolution ex_info 2560 1440 = None"
    by (simp_all add: ex_defs ex_info_def mode_defs)
  from mode_selector_first_of_highest_refresh [of ex_tied 1920 1080 ex_info] a
  have "\<exists>pre post. ko_modes ex_tied = pre @ ex_kwin_mode 2 1920 1080 75000 # post
         \<and> (\<forall>p\<in>set pre. km_width p = 1920 \<and> km_height p = 1080 \<longrightarrow> km_refresh p < 75000)
         \<and> (\<forall>q\<in>set post. km_width q = 1920 \<and> km_height q = 1080 \<longrightarrow> km_refresh q \<le> 75000)"
    by (simp add: ex_kwin_mode_def)
  with a b c show ?thesis by simp
qed

section \<open>Properties of building a configuration\<close>

lemmas apply_defs = vdagent_kwin_set_monitor_config_def vdagent_mutter_set_monitor_config_def
  kwin_target_def kwin_configure_output_def mutter_target_def mutter_configure_monitor_def
  mutter_logical_monitor_def parse_monitors_from_state_def APPLY_METHOD_TEMPORARY_def
  kwin_lookup_def

lemmas ex_apply_defs = ex_fixed_def ex_mc_def ex_layout_def ex_lm_def

subsection \<open>The loops over the requested layout\<close>

text \<open>Both inner loops find the first entry that is mapped to the display.\<close>

lemma kwin_output_for_display_find:
  "kwin_output_for_display cm outs i = find (\<lambda>out. kwin_lookup cm out = Some i) outs"
  by (induction outs) (auto simp: kwin_lookup_def split: option.splits)

lemma mutter_monitor_for_display_find:
  "mutter_monitor_for_display monitors i = find (\<lambda>info. spice_display_id info = int i) monitors"
  by (induction monitors) auto

lemma parsed_display_id:
  "info \<in> set (parse_monitors_from_state mutter values) \<Longrightarrow>
     spice_display_id info = int i \<longleftrightarrow> mutter_connector_mapping mutter (connector info) = Some i"
  by (auto simp: parse_monitors_from_state_def parse_monitor_def Let_def split: prod.splits option.splits)

lemma find_cong_set: "(\<And>x. x \<in> set xs \<Longrightarrow> P x = Q x) \<Longrightarrow> find P xs = find Q xs"
  by (induction xs) auto

text \<open>
  Both outer loops concatenate what each entry contributes; an entry without a target
  contributes nothing and does not stop the loop.
\<close>

lemma kwin_configure_monitors_concat:
  "kwin_configure_monitors fx cm outs i mcs =
     concat (map (\<lambda>(j, mc). case kwin_target cm outs j of
                                None \<Rightarrow> []
                              | Some out \<Rightarrow> kwin_configure_output fx out mc)
                 (enumerate i mcs))"
  by (induction mcs arbitrary: i) (auto split: option.splits)

lemma mutter_configure_monitors_concat:
  "mutter_configure_monitors monitors i mcs =
     concat (map (\<lambda>(j, mc). case mutter_target monitors j of
                                None \<Rightarrow> []
                              | Some target \<Rightarrow>
                                  (case mutter_configure_monitor target j mc of
                                     None \<Rightarrow> []
                                   | Some lm \<Rightarrow> [lm]))
                 (enumerate i mcs))"
  by (induction mcs arbitrary: i) (auto split: option.splits)

lemma kwin_configure_monitors_append:
  "kwin_configure_monitors fx cm outs i (xs @ ys) =
     kwin_configure_monitors fx cm outs i xs @ kwin_configure_monitors fx cm outs (i + length xs) ys"
  by (induction xs arbitrary: i) (auto split: option.splits)

lemma mutter_configure_monitors_append:
  "mutter_configure_monitors monitors i (xs @ ys) =
     mutter_configure_monitors monitors i xs @ mutter_configure_monitors monitors (i + length xs) ys"
  by (induction xs arbitrary: i) (auto split: option.splits)

lemma kwin_configure_monitors_entry:
  assumes "j < length mcs"
  shows "kwin_configure_monitors fx cm outs 0 mcs =
     kwin_configure_monitors fx cm outs 0 (take j mcs) @
     (case kwin_target cm outs j of None \<Rightarrow> [] | Some out \<Rightarrow> kwin_configure_output fx out (mcs ! j)) @
     kwin_configure_monitors fx cm outs (Suc j) (drop (Suc j) mcs)"
proof -
  have "mcs = take j mcs @ mcs ! j # drop (Suc j) mcs"
    using assms by (simp add: id_take_nth_drop)
  then have "kwin_configure_monitors fx cm outs 0 mcs =
      kwin_configure_monitors fx cm outs 0 (take j mcs @ mcs ! j # drop (Suc j) mcs)"
    by simp
  also have "\<dots> = kwin_configure_monitors fx cm outs 0 (take j mcs) @
      kwin_configure_monitors fx cm outs j (mcs ! j # drop (Suc j) mcs)"
    using assms by (simp add: kwin_configure_monitors_append min_def)
  finally show ?thesis by (simp split: option.splits)
qed

lemma mutter_configure_monitors_entry:
  assumes "j < length mcs"
  shows "mutter_configure_monitors monitors 0 mcs =
     mutter_configure_monitors monitors 0 (take j mcs) @
     (case mutter_target monitors j of
        None \<Rightarrow> []
      | Some target \<Rightarrow>
          (case mutter_configure_monitor target j (mcs ! j) of None \<Rightarrow> [] | Some lm \<Rightarrow> [lm])) @
     mutter_configure_monitors monitors (Suc j) (drop (Suc j) mcs)"
proof -
  have "mcs = take j mcs @ mcs ! j # drop (Suc j) mcs"
    using assms by (simp add: id_take_nth_drop)
  then have "mutter_configure_monitors monitors 0 mcs =
      mutter_configure_monitors monitors 0 (take j mcs @ mcs ! j # drop (Suc j) mcs)"
    by simp
  also have "\<dots> = mutter_configure_monitors monitors 0 (take j mcs) @
      mutter_configure_monitors monitors j (mcs ! j # drop (Suc j) mcs)"
    using assms by (simp add: mutter_configure_monitors_append min_def)
  finally show ?thesis by (simp split: option.splits)
qed

text \<open>What a valid call submits.\<close>

lemma kwin_set_monitor_config_requests:
  assumes "output_management kwin"
  shows "ka_requests (vdagent_kwin_set_monitor_config fx True events (Some kwin) (Some mcs)) =
     kwin_configure_monitors fx (connector_mapping kwin) (outputs kwin) 0 mcs @ [Req_apply]"
  using assms by (simp add: vdagent_kwin_set_monitor_config_def Let_def)

lemma mutter_set_monitor_config_submitted:
  assumes "dbus_proxy mutter \<noteq> None"
  shows "mr_submitted (vdagent_mutter_set_monitor_config amc (Some values) (Some mutter) (Some mcs)) =
     Some (cs_serial values, APPLY_METHOD_TEMPORARY,
           mutter_configure_monitors (parse_monitors_from_state mutter values) 0 mcs)"
  using assms by (simp add: vdagent_mutter_set_monitor_config_def Let_def split: dbus_outcome.splits)

text \<open>Every logical monitor entry Mutter builds comes from one layout entry and its target.\<close>

lemma mutter_configure_monitors_origin:
  "lm \<in> set (mutter_configure_monitors monitors i mcs) \<Longrightarrow>
     \<exists>k<length mcs. \<exists>target. mutter_target monitors (i + k) = Some target
        \<and> mutter_configure_monitor target (i + k) (mcs ! k) = Some lm"
proof (induction mcs arbitrary: i)
  case Nil
  then show ?case by simp
next
  case (Cons mc rest)
  let ?here = "\<exists>target. mutter_target monitors i = Some target
      \<and> mutter_configure_monitor target i mc = Some lm"
  from Cons.prems have "?here \<or> lm \<in> set (mutter_configure_monitors monitors (Suc i) rest)"
    by (auto split: option.splits)
  then show ?case
  proof
    assume ?here
    then have "\<exists>target. mutter_target monitors (i + 0) = Some target
        \<and> mutter_configure_monitor target (i + 0) ((mc # rest) ! 0) = Some lm"
      by simp
    then show ?thesis by (metis length_greater_0_conv list.distinct(1))
  next
    assume "lm \<in> set (mutter_configure_monitors monitors (Suc i) rest)"
    from Cons.IH [OF this] obtain k target where "k < length rest"
      "mutter_target monitors (Suc i + k) = Some target"
      "mutter_configure_monitor target (Suc i + k) (rest ! k) = Some lm"
      by blast
    then have "Suc k < length (mc # rest) \<and> mutter_target monitors (i + Suc k) = Some target
        \<and> mutter_configure_monitor target (i + Suc k) ((mc # rest) ! Suc k) = Some lm"
      by simp
    then show ?thesis by blast
  qed
qed

lemma mutter_configure_monitor_fields:
  assumes "mutter_configure_monitor target i mc = Some lm"
  shows "alm_x lm = mc_x mc \<and> alm_y lm = mc_y mc
       \<and> alm_scale lm = (if current_scale target > 0 then current_scale target else 1)
       \<and> alm_transform lm = current_transform target
       \<and> alm_primary lm = (i = 0)
       \<and> (\<exists>mid. alm_monitors lm = [\<lparr>am_connector = connector target, am_mode_id = mid\<rparr>])"
  using assms
  by (auto simp: mutter_configure_monitor_def mutter_logical_monitor_def split: option.splits)

lemma kwin_configure_output_shape:
  "\<exists>mode_reqs. kwin_configure_output fx out mc =
       Req_enable (ko_device out) 1 # mode_reqs @
       [Req_position (ko_device out) (mc_x mc) (mc_y mc),
        Req_scale (ko_device out) (fx (ko_scale out)),
        Req_transform (ko_device out) (ko_transform out)]
     \<and> (\<forall>r\<in>set mode_reqs. \<exists>h. r = Req_mode (ko_device out) h)"
  by (auto simp: kwin_configure_output_def split: option.splits)

lemma kwin_configure_monitors_depth:
  "kwin_configure_monitors fx cm outs i (map (\<lambda>mc. mc\<lparr>mc_depth := d mc\<rparr>) mcs) =
     kwin_configure_monitors fx cm outs i mcs"
  by (induction mcs arbitrary: i) (auto simp: kwin_configure_output_def split: option.splits)

lemma mutter_configure_monitors_depth:
  "mutter_configure_monitors monitors i (map (\<lambda>mc. mc\<lparr>mc_depth := d mc\<rparr>) mcs) =
     mutter_configure_monitors monitors i mcs"
  by (induction mcs arbitrary: i)
     (auto simp: mutter_configure_monitor_def mutter_logical_monitor_def split: option.splits)

lemma mutter_configure_monitors_later_not_primary:
  "0 < i \<Longrightarrow> lm \<in> set (mutter_configure_monitors monitors i mcs) \<Longrightarrow> \<not> alm_primary lm"
  using mutter_configure_monitors_origin [of lm monitors i mcs]
  by (auto dest!: mutter_configure_monitor_fields)

text \<open>The primary flag Mutter reports has no influence on what is built.\<close>

lemma mutter_monitor_for_display_clear:
  "mutter_monitor_for_display (map clear_primary monitors) i =
     map_option clear_primary (mutter_monitor_for_display monitors i)"
  by (induction monitors) (auto simp: clear_primary_def)

lemma mutter_target_clear:
  "mutter_target (map clear_primary monitors) i = map_option clear_primary (mutter_target monitors i)"
  by (simp add: mutter_target_def mutter_monitor_for_display_clear split: option.splits)

lemma mutter_configure_monitor_clear:
  "mutter_configure_monitor (clear_primary target) i mc = mutter_configure_monitor target i mc"
  by (auto simp: mutter_configure_monitor_def mutter_logical_monitor_def clear_primary_def
      find_mode_for_resolution_def split: option.splits)

lemma mutter_configure_monitors_clear:
  "mutter_configure_monitors (map clear_primary monitors) i mcs =
     mutter_configure_monitors monitors i mcs"
  by (induction mcs arbitrary: i)
     (auto simp: mutter_target_clear mutter_configure_monitor_clear split: option.splits)

lemma find_logical_monitor_info_primary:
  "(case find_logical_monitor_info (map (\<lambda>l. l\<lparr>lm_primary := p l\<rparr>) lms) conn of
      (x, y, sc, tr, pr) \<Rightarrow> (x, y, sc, tr)) =
   (case find_logical_monitor_info lms conn of (x, y, sc, tr, pr) \<Rightarrow> (x, y, sc, tr))"
  by (induction lms) auto

lemma parse_monitor_primary:
  "clear_primary (parse_monitor cm (map (\<lambda>l. l\<lparr>lm_primary := p l\<rparr>) lms) monitor) =
     clear_primary (parse_monitor cm lms monitor)"
  using find_logical_monitor_info_primary [of p lms "mn_connector monitor"]
  by (auto simp: parse_monitor_def clear_primary_def Let_def split: prod.splits)

lemma parse_monitors_primary:
  "map clear_primary
     (parse_monitors_from_state mutter
        (values\<lparr>cs_logical_monitors := map (\<lambda>l. l\<lparr>lm_primary := p l\<rparr>) (cs_logical_monitors values)\<rparr>)) =
   map clear_primary (parse_monitors_from_state mutter values)"
  by (simp add: parse_monitors_from_state_def parse_monitor_primary)

subsection \<open>C6: the target output of a layout entry\<close>

text \<open>
  Claim C6. For every apply call and every entry of the requested layout (entry \<open>i\<close>
  stands for display id \<open>i\<close>), the target is the first output of the snapshot whose
  connector name the connector mapping sends to \<open>i\<close>; if there is none, the output at
  index \<open>i\<close> of the snapshot when \<open>i\<close> is in range; if neither exists the entry is
  skipped: it contributes nothing, and the configuration built from all other entries is
  still submitted. This holds for both backends.
\<close>

theorem target_by_mapping_else_by_index:
  assumes "output_management kwin" and "dbus_proxy mutter \<noteq> None"
  shows "kwin_target (connector_mapping kwin) (outputs kwin) i =
           (case find (\<lambda>out. kwin_lookup (connector_mapping kwin) out = Some i) (outputs kwin) of
              Some out \<Rightarrow> Some out
            | None \<Rightarrow> if i < length (outputs kwin) then Some (outputs kwin ! i) else None)
       \<and> ka_requests (vdagent_kwin_set_monitor_config fx True events (Some kwin) (Some mcs)) =
           concat (map (\<lambda>(j, mc). case kwin_target (connector_mapping kwin) (outputs kwin) j of
                                      None \<Rightarrow> []
                                    | Some out \<Rightarrow> kwin_configure_output fx out mc)
                       (enumerate 0 mcs)) @ [Req_apply]
       \<and> mutter_target (parse_monitors_from_state mutter values) i =
           (case find (\<lambda>info. mutter_connector_mapping mutter (connector info) = Some i)
                   (parse_monitors_from_state mutter values) of
              Some info \<Rightarrow> Some info
            | None \<Rightarrow> if i < length (cs_monitors values)
                       then Some (parse_monitors_from_state mutter values ! i) else None)
       \<and> mr_submitted (vdagent_mutter_set_monitor_config amc (Some values) (Some mutter) (Some mcs)) =
           Some (cs_serial values, APPLY_METHOD_TEMPORARY,
                 concat (map (\<lambda>(j, mc). case mutter_target (parse_monitors_from_state mutter values) j of
                                            None \<Rightarrow> []
                                          | Some target \<Rightarrow>
                                              (case mutter_configure_monitor target j mc of
                                                 None \<Rightarrow> []
                                               | Some lm \<Rightarrow> [lm]))
                             (enumerate 0 mcs)))"
proof (intro conjI)
  show "kwin_target (connector_mapping kwin) (outputs kwin) i =
           (case find (\<lambda>out. kwin_lookup (connector_mapping kwin) out = Some i) (outputs kwin) of
              Some out \<Rightarrow> Some out
            | None \<Rightarrow> if i < length (outputs kwin) then Some (outputs kwin ! i) else None)"
    by (simp add: kwin_target_def kwin_output_for_display_find)
next
  show "ka_requests (vdagent_kwin_set_monitor_config fx True events (Some kwin) (Some mcs)) =
           concat (map (\<lambda>(j, mc). case kwin_target (connector_mapping kwin) (outputs kwin) j of
                                      None \<Rightarrow> []
                                    | Some out \<Rightarrow> kwin_configure_output fx out mc)
                       (enumerate 0 mcs)) @ [Req_apply]"
    by (simp only: kwin_set_monitor_config_requests [OF assms(1)] kwin_configure_monitors_concat)
next
  have "find (\<lambda>info. spice_display_id info = int i) (parse_monitors_from_state mutter values) =
      find (\<lambda>info. mutter_connector_mapping mutter (connector info) = Some i)
        (parse_monitors_from_state mutter values)"
    by (rule find_cong_set) (rule parsed_display_id)
  then show "mutter_target (parse_monitors_from_state mutter values) i =
           (case find (\<lambda>info. mutter_connector_mapping mutter (connector info) = Some i)
                   (parse_monitors_from_state mutter values) of
              Some info \<Rightarrow> Some info
            | None \<Rightarrow> if i < length (cs_monitors values)
                       then Some (parse_monitors_from_state mutter values ! i) else None)"
    by (simp add: mutter_target_def mutter_monitor_for_display_find)
       (simp add: parse_monitors_from_state_def)
next
  show "mr_submitted (vdagent_mutter_set_monitor_config amc (Some values) (Some mutter) (Some mcs)) =
           Some (cs_serial values, APPLY_METHOD_TEMPORARY,
                 concat (map (\<lambda>(j, mc). case mutter_target (parse_monitors_from_state mutter values) j of
                                            None \<Rightarrow> []
                                          | Some target \<Rightarrow>
                                              (case mutter_configure_monitor target j mc of
                                                 None \<Rightarrow> []
                                               | Some lm \<Rightarrow> [lm]))
                             (enumerate 0 mcs)))"
    by (simp only: mutter_set_monitor_config_submitted [OF assms(2)] mutter_configure_monitors_concat)
qed

text \<open>
  With Virtual-2 mapped to display 1 and three entries: entry 0 falls back to the output
  at index 0, entry 1 is resolved by the mapping, entry 2 is skipped.
\<close>

theorem target_by_mapping_else_by_index_witness:
  "output_management (ex_kwin [''Virtual-2'' \<mapsto> 1] [ex_virtual_1, ex_virtual_2])
   \<and> dbus_proxy (ex_mutter [''Virtual-2'' \<mapsto> 1]) \<noteq> None
   \<and> kwin_target [''Virtual-2'' \<mapsto> 1] [ex_virtual_1, ex_virtual_2] 1 = Some ex_virtual_2
   \<and> kwin_target [''Virtual-2'' \<mapsto> 1] [ex_virtual_1, ex_virtual_2] 0 = Some ex_virtual_1
   \<and> kwin_target [''Virtual-2'' \<mapsto> 1] [ex_virtual_1, ex_virtual_2] 2 = None
   \<and> ka_requests (vdagent_kwin_set_monitor_config ex_fixed True (\<lambda>k. [Applied])
         (Some (ex_kwin [''Virtual-2'' \<mapsto> 1] [ex_virtual_1, ex_virtual_2])) (Some ex_layout)) =
       [Req_enable 11 1, Req_mode 11 2, Req_position 11 0 0, Req_scale 11 256, Req_transform 11 0,
        Req_enable 12 1, Req_mode 12 4, Req_position 12 1920 0, Req_scale 12 256, Req_transform 12 0,
        Req_apply]
   \<and> mr_submitted (vdagent_mutter_set_monitor_config (\<lambda>serial method lms. Dbus_reply)
         (Some ex_state) (Some (ex_mutter [''Virtual-2'' \<mapsto> 1])) (Some ex_layout)) =
       Some (7, 1, [ex_lm 0 0 1 True ''Virtual-1'' ''1920x1080@75'',
                    ex_lm 1920 0 2 False ''Virtual-2'' ''1280x1024@60''])"
proof -
  let ?kwin = "ex_kwin [''Virtual-2'' \<mapsto> 1] [ex_virtual_1, ex_virtual_2]"
  let ?mutter = "ex_mutter [''Virtual-2'' \<mapsto> 1]"
  have h: "output_management ?kwin" "dbus_proxy ?mutter \<noteq> None"
    by (simp_all add: ex_defs)
  have t: "kwin_target [''Virtual-2'' \<mapsto> 1] [ex_virtual_1, ex_virtual_2] 1 = Some ex_virtual_2"
    "kwin_target [''Virtual-2'' \<mapsto> 1] [ex_virtual_1, ex_virtual_2] 0 = Some ex_virtual_1"
    "kwin_target [''Virtual-2'' \<mapsto> 1] [ex_virtual_1, ex_virtual_2] 2 = None"
    by (simp_all add: ex_defs apply_defs)
  note inst = target_by_mapping_else_by_index [OF h, of _ ex_fixed "\<lambda>k. [Applied]" ex_layout
      ex_state "\<lambda>serial method lms. Dbus_reply"]
  have k: "ka_requests (vdagent_kwin_set_monitor_config ex_fixed True (\<lambda>k. [Applied])
         (Some ?kwin) (Some ex_layout)) =
       [Req_enable 11 1, Req_mode 11 2, Req_position 11 0 0, Req_scale 11 256, Req_transform 11 0,
        Req_enable 12 1, Req_mode 12 4, Req_position 12 1920 0, Req_scale 12 256, Req_transform 12 0,
        Req_apply]"
    using inst [of 0]
    by (simp add: ex_defs ex_apply_defs apply_defs mode_defs enumerate_eq_zip upt_rec)
  have m: "mr_submitted (vdagent_mutter_set_monitor_config (\<lambda>serial method lms. Dbus_reply)
         (Some ex_state) (Some ?mutter) (Some ex_layout)) =
       Some (7, 1, [ex_lm 0 0 1 True ''Virtual-1'' ''1920x1080@75'',
                    ex_lm 1920 0 2 False ''Virtual-2'' ''1280x1024@60''])"
    using inst [of 0]
    by (simp add: ex_defs ex_apply_defs apply_defs mode_defs enumerate_eq_zip upt_rec)
  from h t k m show ?thesis by simp
qed

subsection \<open>C5: no matching mode\<close>

text \<open>
  Claim C5 says that an output with no matching mode and no current mode is skipped, no
  operation being built for it. The KWin backend still enables that output and sets its
  position, scale and transform; it only makes no mode request.
\<close>

theorem no_mode_output_skipped_counterexample:
  "kwin_target Map.empty [ex_modeless] 0 = Some ex_modeless
   \<and> kwin_find_mode ex_modeless 1920 1080 = None
   \<and> ko_current_mode ex_modeless = None
   \<and> ka_requests (vdagent_kwin_set_monitor_config ex_fixed True ex_confirm_at_once
         (Some (ex_kwin Map.empty [ex_modeless])) (Some [ex_mc 1920 1080 0 0])) =
       [Req_enable 15 1, Req_position 15 0 0, Req_scale 15 256, Req_transform 15 0, Req_apply]"
  by (simp add: ex_confirm_at_once_def ex_defs ex_apply_defs ex_modeless_def apply_defs mode_defs)

text \<open>
  Claim C5, amended. For every apply call and every resolved target output for which no
  mode matches the requested width and height: the operation uses the output's current
  mode if it has one. If it has none, the Mutter backend builds no operation for the
  output, and the KWin backend makes no mode request for it while it still enables it and
  sets its position, scale and transform. In both backends the entries before and after
  are processed as if the entry were any other.
\<close>

theorem current_mode_fallback:
  assumes "j < length mcs"
  shows "(kwin_target cm outs j = Some out
          \<and> kwin_find_mode out (int (mc_width (mcs ! j))) (int (mc_height (mcs ! j))) = None \<longrightarrow>
          kwin_configure_monitors fx cm outs 0 mcs =
            kwin_configure_monitors fx cm outs 0 (take j mcs) @
            [Req_enable (ko_device out) 1] @
            (case ko_current_mode out of
               Some cur \<Rightarrow> [Req_mode (ko_device out) (km_mode cur)]
             | None \<Rightarrow> []) @
            [Req_position (ko_device out) (mc_x (mcs ! j)) (mc_y (mcs ! j)),
             Req_scale (ko_device out) (fx (ko_scale out)),
             Req_transform (ko_device out) (ko_transform out)] @
            kwin_configure_monitors fx cm outs (Suc j) (drop (Suc j) mcs))
       \<and> (mutter_target monitors j = Some target
          \<and> find_mode_for_resolution target (int (mc_width (mcs ! j))) (int (mc_height (mcs ! j))) = None \<longrightarrow>
          mutter_configure_monitors monitors 0 mcs =
            mutter_configure_monitors monitors 0 (take j mcs) @
            (case current_mode_id target of
               Some mid \<Rightarrow> [mutter_logical_monitor target j (mcs ! j) mid]
             | None \<Rightarrow> []) @
            mutter_configure_monitors monitors (Suc j) (drop (Suc j) mcs))"
  using kwin_configure_monitors_entry [OF assms, of fx cm outs]
        mutter_configure_monitors_entry [OF assms, of monitors]
  by (auto simp: kwin_configure_output_def mutter_configure_monitor_def split: option.splits)

text \<open>
  A request for 2560x1440, which no mode offers: KWin and Mutter use the current mode of
  Virtual-1; a Mutter monitor without modes is skipped and Virtual-2 is still configured.
\<close>

theorem current_mode_fallback_witness:
  "(0::nat) < length [ex_mc 2560 1440 0 0, ex_mc 1280 1024 1920 0]
   \<and> kwin_target ex_mapping [ex_virtual_1, ex_virtual_2] 0 = Some ex_virtual_1
   \<and> kwin_find_mode ex_virtual_1 2560 1440 = None
   \<and> kwin_configure_monitors ex_fixed ex_mapping [ex_virtual_1, ex_virtual_2] 0
         [ex_mc 2560 1440 0 0, ex_mc 1280 1024 1920 0] =
       [Req_enable 11 1, Req_mode 11 1, Req_position 11 0 0, Req_scale 11 256, Req_transform 11 0,
        Req_enable 12 1, Req_mode 12 4, Req_position 12 1920 0, Req_scale 12 256, Req_transform 12 0]
   \<and> mutter_target (parse_monitors_from_state (ex_mutter Map.empty) ex_state_modeless) 0 =
       Some (parse_monitors_from_state (ex_mutter Map.empty) ex_state_modeless ! 0)
   \<and> find_mode_for_resolution (parse_monitors_from_state (ex_mutter Map.empty) ex_state_modeless ! 0)
         2560 1440 = None
   \<and> current_mode_id (parse_monitors_from_state (ex_mutter Map.empty) ex_state_modeless ! 0) = None
   \<and> mutter_configure_monitors (parse_monitors_from_state (ex_mutter Map.empty) ex_state_modeless) 0
         [ex_mc 2560 1440 0 0, ex_mc 1280 1024 1920 0] =
       [ex_lm 1920 0 2 False ''Virtual-2'' ''1280x1024@60'']
   \<and> mutter_configure_monitors (parse_monitors_from_state (ex_mutter Map.empty) ex_state) 0
         [ex_mc 2560 1440 0 0, ex_mc 1280 1024 1920 0] =
       [ex_lm 0 0 1 True ''Virtual-1'' ''1920x1080@60'',
        ex_lm 1920 0 2 False ''Virtual-2'' ''1280x1024@60'']"
proof -
  let ?mcs = "[ex_mc 2560 1440 0 0, ex_mc 1280 1024 1920 0]"
  let ?ms = "parse_monitors_from_state (ex_mutter Map.empty) ex_state_modeless"
  let ?ms' = "parse_monitors_from_state (ex_mutter Map.empty) ex_state"
  have j: "(0::nat) < length ?mcs" by simp
  have a: "kwin_target ex_mapping [ex_virtual_1, ex_virtual_2] 0 = Some ex_virtual_1"
    "kwin_find_mode ex_virtual_1 2560 1440 = None"
    by (simp_all add: ex_defs apply_defs mode_defs)
  have b: "mutter_target ?ms 0 = Some (?ms ! 0)" "find_mode_for_resolution (?ms ! 0) 2560 1440 = None"
    "current_mode_id (?ms ! 0) = None"
    by (simp_all add: ex_defs ex_state_modeless_def apply_defs mode_defs)
  have c: "mutter_target ?ms' 0 = Some (?ms' ! 0)" "find_mode_for_resolution (?ms' ! 0) 2560 1440 = None"
    by (simp_all add: ex_defs apply_defs mode_defs)
  have "kwin_configure_monitors ex_fixed ex_mapping [ex_virtual_1, ex_virtual_2] 0 ?mcs =
       [Req_enable 11 1, Req_mode 11 1, Req_position 11 0 0, Req_scale 11 256, Req_transform 11 0,
        Req_enable 12 1, Req_mode 12 4, Req_position 12 1920 0, Req_scale 12 256, Req_transform 12 0]"
    using current_mode_fallback [OF j, of ex_mapping "[ex_virtual_1, ex_virtual_2]" ex_virtual_1
        ex_fixed ?ms "?ms ! 0"] a
    by (simp add: ex_defs ex_apply_defs apply_defs mode_defs)
  moreover have "mutter_configure_monitors ?ms 0 ?mcs = [ex_lm 1920 0 2 False ''Virtual-2'' ''1280x1024@60'']"
    using current_mode_fallback [OF j, of ex_mapping "[ex_virtual_1, ex_virtual_2]" ex_virtual_1
        ex_fixed ?ms "?ms ! 0"] b
    by (simp add: ex_defs ex_apply_defs ex_state_modeless_def apply_defs mode_defs)
  moreover have "mutter_configure_monitors ?ms' 0 ?mcs =
       [ex_lm 0 0 1 True ''Virtual-1'' ''1920x1080@60'',
        ex_lm 1920 0 2 False ''Virtual-2'' ''1280x1024@60'']"
    using current_mode_fallback [OF j, of ex_mapping "[ex_virtual_1, ex_virtual_2]" ex_virtual_1
        ex_fixed ?ms' "?ms' ! 0"] c
    by (simp add: ex_defs ex_apply_defs apply_defs mode_defs)
  ultimately show ?thesis using j a b by simp
qed

subsection \<open>C7: scale and transform\<close>

text \<open>
  Claim C7 says that the scale of every built operation is the output's current scale.
  The Mutter backend replaces a scale that is not positive by 1.0: a logical monitor
  reported with scale 0 is submitted with scale 1.
\<close>

theorem scale_and_transform_counterexample:
  "current_scale (parse_monitors_from_state (ex_mutter ex_mapping) ex_state_zero_scale ! 0) = 0
   \<and> mr_submitted (vdagent_mutter_set_monitor_config ex_always_reply
         (Some ex_state_zero_scale) (Some (ex_mutter ex_mapping)) (Some [ex_mc 1920 1080 0 0])) =
       Some (7, 1, [ex_lm 0 0 1 True ''Virtual-1'' ''1920x1080@60''])"
  by (simp add: ex_always_reply_def ex_defs ex_apply_defs ex_state_zero_scale_def apply_defs mode_defs)

text \<open>
  Claim C7, amended. For every operation built for a resolved output: in the KWin backend
  the scale request carries the output's scale (as \<^verbatim>\<open>wl_fixed_from_double\<close> converts it) and
  the transform request the output's transform; in the Mutter backend the transform is
  the monitor's current transform and the scale is the monitor's current scale if that is
  positive, else 1.0. The position is the entry's, the mode requests name the same device,
  Mutter's primary flag tells whether the entry is the first one, and the colour depth of
  an entry has no influence.
\<close>

theorem scale_and_transform_carried_over:
  assumes "j < length mcs"
  shows "(kwin_target cm outs j = Some out \<longrightarrow>
           (\<exists>mode_reqs.
              kwin_configure_monitors fx cm outs 0 mcs =
                kwin_configure_monitors fx cm outs 0 (take j mcs) @
                (Req_enable (ko_device out) 1 # mode_reqs @
                 [Req_position (ko_device out) (mc_x (mcs ! j)) (mc_y (mcs ! j)),
                  Req_scale (ko_device out) (fx (ko_scale out)),
                  Req_transform (ko_device out) (ko_transform out)]) @
                kwin_configure_monitors fx cm outs (Suc j) (drop (Suc j) mcs)
              \<and> (\<forall>r\<in>set mode_reqs. \<exists>h. r = Req_mode (ko_device out) h)))
       \<and> (\<forall>lm\<in>set (mutter_configure_monitors monitors 0 mcs).
            \<exists>k<length mcs. \<exists>target. mutter_target monitors k = Some target
              \<and> alm_x lm = mc_x (mcs ! k) \<and> alm_y lm = mc_y (mcs ! k)
              \<and> alm_scale lm = (if current_scale target > 0 then current_scale target else 1)
              \<and> alm_transform lm = current_transform target
              \<and> alm_primary lm = (k = 0)
              \<and> (\<exists>mid. alm_monitors lm = [\<lparr>am_connector = connector target, am_mode_id = mid\<rparr>]))
       \<and> kwin_configure_monitors fx cm outs 0 (map (\<lambda>mc. mc\<lparr>mc_depth := d mc\<rparr>) mcs) =
           kwin_configure_monitors fx cm outs 0 mcs
       \<and> mutter_configure_monitors monitors 0 (map (\<lambda>mc. mc\<lparr>mc_depth := d mc\<rparr>) mcs) =
           mutter_configure_monitors monitors 0 mcs"
proof (intro conjI impI ballI)
  assume t: "kwin_target cm outs j = Some out"
  from kwin_configure_output_shape [of fx out "mcs ! j"] obtain mode_reqs where
    "kwin_configure_output fx out (mcs ! j) =
       Req_enable (ko_device out) 1 # mode_reqs @
       [Req_position (ko_device out) (mc_x (mcs ! j)) (mc_y (mcs ! j)),
        Req_scale (ko_device out) (fx (ko_scale out)),
        Req_transform (ko_device out) (ko_transform out)]"
    "\<forall>r\<in>set mode_reqs. \<exists>h. r = Req_mode (ko_device out) h"
    by blast
  with kwin_configure_monitors_entry [OF assms, of fx cm outs] t
  show "\<exists>mode_reqs.
              kwin_configure_monitors fx cm outs 0 mcs =
                kwin_configure_monitors fx cm outs 0 (take j mcs) @
                (Req_enable (ko_device out) 1 # mode_reqs @
                 [Req_position (ko_device out) (mc_x (mcs ! j)) (mc_y (mcs ! j)),
                  Req_scale (ko_device out) (fx (ko_scale out)),
                  Req_transform (ko_device out) (ko_transform out)]) @
                kwin_configure_monitors fx cm outs (Suc j) (drop (Suc j) mcs)
              \<and> (\<forall>r\<in>set mode_reqs. \<exists>h. r = Req_mode (ko_device out) h)"
    by (intro exI [of _ mode_reqs]) simp
next
  fix lm assume "lm \<in> set (mutter_configure_monitors monitors 0 mcs)"
  from mutter_configure_monitors_origin [OF this] obtain k target where
    k: "k < length mcs" "mutter_target monitors k = Some target"
      "mutter_configure_monitor target k (mcs ! k) = Some lm"
    by auto
  from mutter_configure_monitor_fields [OF k(3)] k(1,2)
  show "\<exists>k<length mcs. \<exists>target. mutter_target monitors k = Some target
              \<and> alm_x lm = mc_x (mcs ! k) \<and> alm_y lm = mc_y (mcs ! k)
              \<and> alm_scale lm = (if current_scale target > 0 then current_scale target else 1)
              \<and> alm_transform lm = current_transform target
              \<and> alm_primary lm = (k = 0)
              \<and> (\<exists>mid. alm_monitors lm = [\<lparr>am_connector = connector target, am_mode_id = mid\<rparr>])"
    by blast
qed (rule kwin_configure_monitors_depth mutter_configure_monitors_depth)+

theorem scale_and_transform_carried_over_witness:
  "(0::nat) < length ex_layout
   \<and> kwin_target ex_mapping [ex_virtual_1, ex_virtual_2] 0 = Some ex_virtual_1
   \<and> (\<exists>mode_reqs.
         kwin_configure_monitors ex_fixed ex_mapping [ex_virtual_1, ex_virtual_2] 0 ex_layout =
           Req_enable 11 1 # mode_reqs @
           [Req_position 11 0 0, Req_scale 11 256, Req_transform 11 0] @
           kwin_configure_monitors ex_fixed ex_mapping [ex_virtual_1, ex_virtual_2] 1 (drop 1 ex_layout))
   \<and> map alm_scale (mutter_configure_monitors
         (parse_monitors_from_state (ex_mutter ex_mapping) ex_state) 0 ex_layout) = [1, 2]
   \<and> map alm_transform (mutter_configure_monitors
         (parse_monitors_from_state (ex_mutter ex_mapping) ex_state) 0 ex_layout) = [0, 0]
   \<and> map current_scale (parse_monitors_from_state (ex_mutter ex_mapping) ex_state) = [1, 2]"
proof -
  let ?outs = "[ex_virtual_1, ex_virtual_2]"
  let ?ms = "parse_monitors_from_state (ex_mutter ex_mapping) ex_state"
  have j: "(0::nat) < length ex_layout" by (simp add: ex_layout_def)
  have t: "kwin_target ex_mapping ?outs 0 = Some ex_virtual_1"
    by (simp add: ex_defs apply_defs)
  note inst = scale_and_transform_carried_over [OF j, of ex_mapping ?outs ex_virtual_1 ex_fixed ?ms "\<lambda>mc. 24"]
  have v: "ko_device ex_virtual_1 = 11" "ko_scale ex_virtual_1 = 1" "ko_transform ex_virtual_1 = 0"
    "mc_x (ex_layout ! 0) = 0" "mc_y (ex_layout ! 0) = 0" "ex_fixed 1 = 256"
    by (simp_all add: ex_defs ex_apply_defs)
  from inst t have "\<exists>mode_reqs.
         kwin_configure_monitors ex_fixed ex_mapping ?outs 0 ex_layout =
           kwin_configure_monitors ex_fixed ex_mapping ?outs 0 (take 0 ex_layout) @
           (Req_enable (ko_device ex_virtual_1) 1 # mode_reqs @
            [Req_position (ko_device ex_virtual_1) (mc_x (ex_layout ! 0)) (mc_y (ex_layout ! 0)),
             Req_scale (ko_device ex_virtual_1) (ex_fixed (ko_scale ex_virtual_1)),
             Req_transform (ko_device ex_virtual_1) (ko_transform ex_virtual_1)]) @
           kwin_configure_monitors ex_fixed ex_mapping ?outs (Suc 0) (drop (Suc 0) ex_layout)"
    by blast
  then have "\<exists>mode_reqs.
         kwin_configure_monitors ex_fixed ex_mapping ?outs 0 ex_layout =
           Req_enable 11 1 # mode_reqs @
           [Req_position 11 0 0, Req_scale 11 256, Req_transform 11 0] @
           kwin_configure_monitors ex_fixed ex_mapping ?outs 1 (drop 1 ex_layout)"
    by (simp add: v)
  moreover have "map alm_scale (mutter_configure_monitors ?ms 0 ex_layout) = [1, 2]"
    "map alm_transform (mutter_configure_monitors ?ms 0 ex_layout) = [0, 0]"
    "map current_scale ?ms = [1, 2]"
    by (simp_all add: ex_defs ex_apply_defs apply_defs mode_defs)
  ultimately show ?thesis using j t by simp
qed

subsection \<open>C10: Mutter's primary monitor\<close>

text \<open>
  Claim C10 says that an apply always makes the first entry of the requested layout the
  primary monitor. When the first entry builds no operation the loop goes on before it
  reaches the flag: with a first monitor that has no mode, the apply succeeds and the one
  logical monitor it submits, built from the second entry, is not primary.
\<close>

theorem mutter_primary_counterexample:
  "mr_ret (vdagent_mutter_set_monitor_config ex_always_reply (Some ex_state_modeless)
       (Some (ex_mutter Map.empty)) (Some [ex_mc 2560 1440 0 0, ex_mc 1280 1024 1920 0])) = 0
   \<and> mr_submitted (vdagent_mutter_set_monitor_config ex_always_reply (Some ex_state_modeless)
       (Some (ex_mutter Map.empty)) (Some [ex_mc 2560 1440 0 0, ex_mc 1280 1024 1920 0])) =
     Some (7, 1, [ex_lm 1920 0 2 False ''Virtual-2'' ''1280x1024@60''])
   \<and> map alm_primary [ex_lm 1920 0 2 False ''Virtual-2'' ''1280x1024@60''] = [False]"
  by (simp add: ex_defs ex_apply_defs ex_state_modeless_def ex_always_reply_def apply_defs mode_defs)

text \<open>
  Claim C10, amended. In the Mutter backend, for every apply call, the submitted list of
  logical monitors is the operation built from the first entry (index 0) of the requested
  layout, if that entry builds one, followed by the operations built from the other
  entries; the former is marked primary and every other one is marked not primary,
  whatever monitor the compositor reports as primary. When the first entry builds no
  operation (it has no target, or its target has neither a matching nor a current mode),
  no submitted operation is primary.
\<close>

theorem mutter_first_entry_is_primary:
  assumes "dbus_proxy mutter \<noteq> None"
  shows "(\<exists>first others.
           mr_submitted (vdagent_mutter_set_monitor_config amc (Some values) (Some mutter) (Some mcs)) =
             Some (cs_serial values, APPLY_METHOD_TEMPORARY, first @ others)
           \<and> first = (case mcs of
                        [] \<Rightarrow> []
                      | mc # rest \<Rightarrow>
                          (case mutter_target (parse_monitors_from_state mutter values) 0 of
                             None \<Rightarrow> []
                           | Some target \<Rightarrow>
                               (case mutter_configure_monitor target 0 mc of
                                  None \<Rightarrow> []
                                | Some lm \<Rightarrow> [lm])))
           \<and> others = mutter_configure_monitors (parse_monitors_from_state mutter values) 1 (tl mcs)
           \<and> (\<forall>lm\<in>set first. alm_primary lm)
           \<and> (\<forall>lm\<in>set others. \<not> alm_primary lm))
       \<and> mutter_configure_monitors
           (parse_monitors_from_state mutter
              (values\<lparr>cs_logical_monitors :=
                         map (\<lambda>l. l\<lparr>lm_primary := p l\<rparr>) (cs_logical_monitors values)\<rparr>)) 0 mcs =
         mutter_configure_monitors (parse_monitors_from_state mutter values) 0 mcs"
proof
  let ?ms = "parse_monitors_from_state mutter values"
  let ?first = "case mcs of
                        [] \<Rightarrow> []
                      | mc # rest \<Rightarrow>
                          (case mutter_target ?ms 0 of
                             None \<Rightarrow> []
                           | Some target \<Rightarrow>
                               (case mutter_configure_monitor target 0 mc of
                                  None \<Rightarrow> []
                                | Some lm \<Rightarrow> [lm]))"
  let ?others = "mutter_configure_monitors ?ms 1 (tl mcs)"
  have split: "mutter_configure_monitors ?ms 0 mcs = ?first @ ?others"
    by (cases mcs) (auto split: option.splits)
  have first: "\<forall>lm\<in>set ?first. alm_primary lm"
    by (cases mcs) (auto split: option.splits dest!: mutter_configure_monitor_fields [OF sym])
  have others: "\<forall>lm\<in>set ?others. \<not> alm_primary lm"
    using mutter_configure_monitors_later_not_primary [of 1 _ ?ms "tl mcs"] by auto
  from mutter_set_monitor_config_submitted [OF assms, of amc "values" mcs] split first others
  show "\<exists>first others.
           mr_submitted (vdagent_mutter_set_monitor_config amc (Some values) (Some mutter) (Some mcs)) =
             Some (cs_serial values, APPLY_METHOD_TEMPORARY, first @ others)
           \<and> first = ?first \<and> others = ?others
           \<and> (\<forall>lm\<in>set first. alm_primary lm)
           \<and> (\<forall>lm\<in>set others. \<not> alm_primary lm)"
    by simp
next
  let ?values' = "values\<lparr>cs_logical_monitors :=
                         map (\<lambda>l. l\<lparr>lm_primary := p l\<rparr>) (cs_logical_monitors values)\<rparr>"
  have "mutter_configure_monitors (parse_monitors_from_state mutter ?values') 0 mcs =
      mutter_configure_monitors (map clear_primary (parse_monitors_from_state mutter ?values')) 0 mcs"
    by (simp only: mutter_configure_monitors_clear)
  also have "\<dots> = mutter_configure_monitors (map clear_primary (parse_monitors_from_state mutter values)) 0 mcs"
    by (simp only: parse_monitors_primary)
  also have "\<dots> = mutter_configure_monitors (parse_monitors_from_state mutter values) 0 mcs"
    by (simp only: mutter_configure_monitors_clear)
  finally show "mutter_configure_monitors (parse_monitors_from_state mutter ?values') 0 mcs =
      mutter_configure_monitors (parse_monitors_from_state mutter values) 0 mcs" .
qed

text \<open>Virtual-2 is reported as primary; the submitted list makes Virtual-1 primary.\<close>

theorem mutter_first_entry_is_primary_witness:
  "dbus_proxy (ex_mutter ex_mapping) \<noteq> None
   \<and> map is_primary (parse_monitors_from_state (ex_mutter ex_mapping) ex_state_second_primary) =
       [False, True]
   \<and> mr_submitted (vdagent_mutter_set_monitor_config (\<lambda>serial method lms. Dbus_reply)
         (Some ex_state_second_primary) (Some (ex_mutter ex_mapping)) (Some ex_layout)) =
       Some (7, 1, [ex_lm 0 0 1 True ''Virtual-1'' ''1920x1080@75'',
                    ex_lm 1920 0 2 False ''Virtual-2'' ''1280x1024@60''])"
proof -
  have h: "dbus_proxy (ex_mutter ex_mapping) \<noteq> None" by (simp add: ex_defs)
  have p: "map is_primary (parse_monitors_from_state (ex_mutter ex_mapping) ex_state_second_primary) =
       [False, True]"
    by (simp add: ex_defs ex_state_second_primary_def apply_defs mode_defs)
  have "mr_submitted (vdagent_mutter_set_monitor_config (\<lambda>serial method lms. Dbus_reply)
         (Some ex_state_second_primary) (Some (ex_mutter ex_mapping)) (Some ex_layout)) =
       Some (7, 1, [ex_lm 0 0 1 True ''Virtual-1'' ''1920x1080@75'',
                    ex_lm 1920 0 2 False ''Virtual-2'' ''1280x1024@60''])"
    using mutter_first_entry_is_primary [OF h, of "\<lambda>serial method lms. Dbus_reply"
        ex_state_second_primary ex_layout "\<lambda>l. False"]
    by (simp add: ex_defs ex_apply_defs ex_state_second_primary_def apply_defs mode_defs)
  with h p show ?thesis by simp
qed

section \<open>Properties of waiting for the outcome\<close>

subsection \<open>The wait loop of the KWin backend\<close>

lemma fold_config_listener:
  "ks_config_applied (fold config_listener evs s) = (ks_config_applied s \<or> Applied \<in> set evs)"
  "ks_config_failed (fold config_listener evs s) = (ks_config_failed s \<or> Failed \<in> set evs)"
  "ks_roundtrips (fold config_listener evs s) = ks_roundtrips s"
  "ks_steps (fold config_listener evs s) = ks_steps s"
proof (induction evs arbitrary: s)
  case Nil
  { case 1 show ?case by simp next
    case 2 show ?case by simp next
    case 3 show ?case by simp next
    case 4 show ?case by simp }
next
  case (Cons e evs)
  { case 1 show ?case by (cases e) (auto simp: Cons.IH) next
    case 2 show ?case by (cases e) (auto simp: Cons.IH) next
    case 3 show ?case by (cases e) (auto simp: Cons.IH) next
    case 4 show ?case by (cases e) (auto simp: Cons.IH) }
qed

lemma events_nonempty: "evs \<noteq> [] \<longleftrightarrow> Applied \<in> set evs \<or> Failed \<in> set evs"
proof (cases evs)
  case Nil
  then show ?thesis by simp
next
  case (Cons e rest)
  then show ?thesis by (cases e) auto
qed

lemma kwin_wait_done:
  "ks_config_applied s \<or> ks_config_failed s \<Longrightarrow> kwin_wait events s max_wait = s"
  by (subst kwin_wait.simps) auto

lemma kwin_wait_quiet_step:
  assumes "\<not> ks_config_applied s" "\<not> ks_config_failed s" "events (ks_roundtrips s) = []"
  shows "kwin_wait events s (int (Suc n)) =
     kwin_wait events
       (s\<lparr>ks_roundtrips := Suc (ks_roundtrips s),
          ks_steps := ks_steps s @ [Process_events, Sleep_us 100000]\<rparr>) (int n)"
  using assms
  by (subst kwin_wait.simps) (simp add: wl_display_roundtrip_def g_usleep_def Let_def)

lemma kwin_wait_signal_step:
  assumes "\<not> ks_config_applied s" "\<not> ks_config_failed s" "events (ks_roundtrips s) \<noteq> []"
  shows "kwin_wait events s (int (Suc n)) =
     (fold config_listener (events (ks_roundtrips s)) s)
       \<lparr>ks_roundtrips := Suc (ks_roundtrips s), ks_steps := ks_steps s @ [Process_events]\<rparr>"
proof -
  let ?s1 = "wl_display_roundtrip events s"
  from assms(3) have "ks_config_applied ?s1 \<or> ks_config_failed ?s1"
    by (auto simp: wl_display_roundtrip_def fold_config_listener events_nonempty)
  then have "kwin_wait events s (int (Suc n)) = ?s1"
    using assms(1,2) by (subst kwin_wait.simps) (auto simp: Let_def kwin_wait_done)
  then show ?thesis by (simp add: wl_display_roundtrip_def)
qed

lemma kwin_wait_quiet:
  assumes "\<not> ks_config_applied s" "\<not> ks_config_failed s"
    and "\<forall>j<n. events (ks_roundtrips s + j) = []"
  shows "kwin_wait events s (int n) =
     s\<lparr>ks_roundtrips := ks_roundtrips s + n,
       ks_steps := ks_steps s @ concat (replicate n [Process_events, Sleep_us 100000])\<rparr>"
  using assms
proof (induction n arbitrary: s)
  case 0
  then show ?case by (subst kwin_wait.simps) simp
next
  case (Suc n)
  let ?s' = "s\<lparr>ks_roundtrips := Suc (ks_roundtrips s),
                ks_steps := ks_steps s @ [Process_events, Sleep_us 100000]\<rparr>"
  from Suc.prems(3) [rule_format, of 0] have here: "events (ks_roundtrips s) = []"
    by simp
  have later: "\<forall>j<n. events (ks_roundtrips ?s' + j) = []"
  proof (intro allI impI)
    fix j assume "j < n"
    with Suc.prems(3) [rule_format, of "Suc j"] show "events (ks_roundtrips ?s' + j) = []"
      by simp
  qed
  have "kwin_wait events s (int (Suc n)) = kwin_wait events ?s' (int n)"
    using Suc.prems(1,2) here by (rule kwin_wait_quiet_step)
  also have "\<dots> = ?s'\<lparr>ks_roundtrips := ks_roundtrips ?s' + n,
       ks_steps := ks_steps ?s' @ concat (replicate n [Process_events, Sleep_us 100000])\<rparr>"
    using Suc.prems(1,2) later by (intro Suc.IH) simp_all
  finally show ?case by simp
qed

lemma kwin_wait_signal:
  assumes "\<not> ks_config_applied s" "\<not> ks_config_failed s"
    and "\<forall>j<k. events (ks_roundtrips s + j) = []"
    and "events (ks_roundtrips s + k) \<noteq> []" and "k < n"
  shows "kwin_wait events s (int n) =
     (fold config_listener (events (ks_roundtrips s + k)) s)
       \<lparr>ks_roundtrips := Suc (ks_roundtrips s + k),
        ks_steps := ks_steps s @ concat (replicate k [Process_events, Sleep_us 100000])
                      @ [Process_events]\<rparr>"
  using assms
proof (induction k arbitrary: s n)
  case 0
  from \<open>0 < n\<close> obtain m where n: "n = Suc m" by (cases n) auto
  from 0 kwin_wait_signal_step [of s events m] show ?case unfolding n by simp
next
  case (Suc k)
  from \<open>Suc k < n\<close> obtain m where n: "n = Suc m" and m: "k < m" by (cases n) auto
  let ?s' = "s\<lparr>ks_roundtrips := Suc (ks_roundtrips s),
                ks_steps := ks_steps s @ [Process_events, Sleep_us 100000]\<rparr>"
  from Suc.prems(3) [rule_format, of 0] have here: "events (ks_roundtrips s) = []"
    by simp
  have later: "\<forall>j<k. events (ks_roundtrips ?s' + j) = []"
  proof (intro allI impI)
    fix j assume "j < k"
    with Suc.prems(3) [rule_format, of "Suc j"] show "events (ks_roundtrips ?s' + j) = []"
      by simp
  qed
  from Suc.prems(4) have sig: "events (ks_roundtrips ?s' + k) \<noteq> []" by simp
  have "kwin_wait events s (int n) = kwin_wait events ?s' (int m)"
    unfolding n using Suc.prems(1,2) here by (rule kwin_wait_quiet_step)
  also have "\<dots> = (fold config_listener (events (ks_roundtrips ?s' + k)) ?s')
       \<lparr>ks_roundtrips := Suc (ks_roundtrips ?s' + k),
        ks_steps := ks_steps ?s' @ concat (replicate k [Process_events, Sleep_us 100000])
                      @ [Process_events]\<rparr>"
    using Suc.prems(1,2) later sig m by (intro Suc.IH) simp_all
  also have "\<dots> = (fold config_listener (events (ks_roundtrips s + Suc k)) s)
       \<lparr>ks_roundtrips := Suc (ks_roundtrips s + Suc k),
        ks_steps := ks_steps s @ concat (replicate (Suc k) [Process_events, Sleep_us 100000])
                      @ [Process_events]\<rparr>"
    by (rule kwin_session.equality) (simp_all add: fold_config_listener)
  finally show ?case .
qed

lemma polling_iterations_replicate:
  "polling_iterations (concat (replicate n [Process_events, Sleep_us u])) = n"
  by (induction n) (simp_all add: polling_iterations_def)

lemma slept_us_replicate:
  "slept_us (concat (replicate n [Process_events, Sleep_us u])) = n * u"
  by (induction n) (simp_all add: slept_us_def)

text \<open>The session a valid KWin apply ends with, by what the compositor sends.\<close>

lemma kwin_apply_session:
  assumes "output_management kwin"
  shows "ka_session (vdagent_kwin_set_monitor_config fx True events (Some kwin) (Some mcs)) =
           kwin_wait events kwin_session_start 50"
    and "ka_ret (vdagent_kwin_set_monitor_config fx True events (Some kwin) (Some mcs)) =
           (if ks_config_failed (kwin_wait events kwin_session_start 50) then - 1
            else if \<not> ks_config_applied (kwin_wait events kwin_session_start 50) then - 1 else 0)"
  using assms by (simp_all add: vdagent_kwin_set_monitor_config_def Let_def)

lemma kwin_wait_50_quiet:
  assumes "\<forall>k<50. events k = []"
  shows "kwin_wait events kwin_session_start 50 =
     \<lparr>ks_config_applied = False, ks_config_failed = False, ks_roundtrips = 50,
      ks_steps = concat (replicate 50 [Process_events, Sleep_us 100000])\<rparr>"
  using kwin_wait_quiet [of kwin_session_start 50 events] assms
  by (simp add: kwin_session_start_def)

lemma kwin_wait_50_signal:
  assumes "k < 50" "\<forall>j<k. events j = []" "events k \<noteq> []"
  shows "kwin_wait events kwin_session_start 50 =
     \<lparr>ks_config_applied = (Applied \<in> set (events k)), ks_config_failed = (Failed \<in> set (events k)),
      ks_roundtrips = Suc k,
      ks_steps = concat (replicate k [Process_events, Sleep_us 100000]) @ [Process_events]\<rparr>"
proof -
  have "kwin_wait events kwin_session_start (int 50) =
     (fold config_listener (events (ks_roundtrips kwin_session_start + k)) kwin_session_start)
       \<lparr>ks_roundtrips := Suc (ks_roundtrips kwin_session_start + k),
        ks_steps := ks_steps kwin_session_start @ concat (replicate k [Process_events, Sleep_us 100000])
                      @ [Process_events]\<rparr>"
    using assms by (intro kwin_wait_signal) (simp_all add: kwin_session_start_def)
  then show ?thesis
    by (simp add: kwin_session_start_def)
       (rule kwin_session.equality, simp_all add: fold_config_listener)
qed

lemma first_signal:
  fixes events :: "nat \<Rightarrow> config_event list"
  assumes "\<not> (\<forall>k<n. events k = [])"
  obtains k where "k < n" "\<forall>j<k. events j = []" "events k \<noteq> ([]::config_event list)"
proof -
  define k where "k = (LEAST k. events k \<noteq> [])"
  from assms obtain k' where k': "k' < n" "events k' \<noteq> []" by auto
  then have a: "events k \<noteq> []" unfolding k_def by (intro LeastI [of "\<lambda>k. events k \<noteq> []" k'])
  have "k \<le> k'" unfolding k_def using k'(2) by (simp add: Least_le)
  with k'(1) have b: "k < n" by simp
  have c: "\<forall>j<k. events j = []" unfolding k_def using not_less_Least by blast
  from b c a show ?thesis by (rule that)
qed

lemma first_signal_unique:
  fixes events :: "nat \<Rightarrow> config_event list"
  assumes "\<forall>j<k. events j = []" "events k \<noteq> []" "\<forall>j<k'. events j = []" "events k' \<noteq> []"
  shows "k = (k'::nat)"
  using assms by (meson linorder_neqE_nat)

lemma kwin_apply_ret_iff:
  assumes "output_management kwin"
  shows "ka_ret (vdagent_kwin_set_monitor_config fx True events (Some kwin) (Some mcs)) = 0 \<longleftrightarrow>
     (\<exists>k<50. (\<forall>j<k. events j = []) \<and> Applied \<in> set (events k) \<and> Failed \<notin> set (events k))"
proof (cases "\<forall>k<50. events k = []")
  case True
  then have "\<not> (\<exists>k<50. (\<forall>j<k. events j = []) \<and> Applied \<in> set (events k) \<and> Failed \<notin> set (events k))"
    by auto
  with True show ?thesis
    by (simp add: kwin_apply_session [OF assms] kwin_wait_50_quiet)
next
  case False
  then obtain k where k: "k < 50" "\<forall>j<k. events j = []" "events k \<noteq> []"
    by (rule first_signal)
  have ret: "ka_ret (vdagent_kwin_set_monitor_config fx True events (Some kwin) (Some mcs)) = 0 \<longleftrightarrow>
      Applied \<in> set (events k) \<and> Failed \<notin> set (events k)"
    by (simp add: kwin_apply_session [OF assms] kwin_wait_50_signal [OF k])
  show ?thesis
  proof
    assume "ka_ret (vdagent_kwin_set_monitor_config fx True events (Some kwin) (Some mcs)) = 0"
    with ret k show "\<exists>k<50. (\<forall>j<k. events j = []) \<and> Applied \<in> set (events k) \<and> Failed \<notin> set (events k)"
      by blast
  next
    assume "\<exists>k<50. (\<forall>j<k. events j = []) \<and> Applied \<in> set (events k) \<and> Failed \<notin> set (events k)"
    then obtain k' where k': "\<forall>j<k'. events j = []" "Applied \<in> set (events k')" "Failed \<notin> set (events k')"
      by blast
    then have "events k' \<noteq> []" by auto
    with k k' have "k = k'" by (intro first_signal_unique [of k events k']) auto
    with ret k' show "ka_ret (vdagent_kwin_set_monitor_config fx True events (Some kwin) (Some mcs)) = 0"
      by simp
  qed
qed

lemma kwin_apply_rejected:
  assumes "output_management kwin" and "k < 50" "\<forall>j<k. events j = []" "Failed \<in> set (events k)"
  shows "ka_ret (vdagent_kwin_set_monitor_config fx True events (Some kwin) (Some mcs)) = - 1
     \<and> ks_steps (ka_session (vdagent_kwin_set_monitor_config fx True events (Some kwin) (Some mcs))) =
         concat (replicate k [Process_events, Sleep_us 100000]) @ [Process_events]"
proof -
  from assms(4) have "events k \<noteq> []" by auto
  from kwin_wait_50_signal [OF assms(2,3) this] assms(4) show ?thesis
    by (simp add: kwin_apply_session [OF assms(1)])
qed

lemma kwin_apply_timed_out:
  assumes "output_management kwin" and "\<forall>k<50. events k = []"
  shows "ka_ret (vdagent_kwin_set_monitor_config fx True events (Some kwin) (Some mcs)) = - 1
     \<and> \<not> ks_config_applied (ka_session (vdagent_kwin_set_monitor_config fx True events (Some kwin) (Some mcs)))
     \<and> \<not> ks_config_failed (ka_session (vdagent_kwin_set_monitor_config fx True events (Some kwin) (Some mcs)))
     \<and> ks_steps (ka_session (vdagent_kwin_set_monitor_config fx True events (Some kwin) (Some mcs))) =
         concat (replicate 50 [Process_events, Sleep_us 100000])
     \<and> polling_iterations
         (ks_steps (ka_session (vdagent_kwin_set_monitor_config fx True events (Some kwin) (Some mcs)))) = 50
     \<and> slept_us
         (ks_steps (ka_session (vdagent_kwin_set_monitor_config fx True events (Some kwin) (Some mcs)))) =
         5000000"
  by (simp add: kwin_apply_session [OF assms(1)] kwin_wait_50_quiet [OF assms(2)]
      polling_iterations_replicate slept_us_replicate)

lemma kwin_apply_ret_range:
  "ka_ret (vdagent_kwin_set_monitor_config fx created events kwin_ptr mon_config) = 0
   \<or> ka_ret (vdagent_kwin_set_monitor_config fx created events kwin_ptr mon_config) = - 1"
  by (simp add: vdagent_kwin_set_monitor_config_def Let_def split: option.splits)

lemma mutter_apply_ret:
  assumes "dbus_proxy mutter \<noteq> None"
  shows "(mr_ret (vdagent_mutter_set_monitor_config amc (Some values) (Some mutter) (Some mcs)) = 0 \<longleftrightarrow>
           amc (cs_serial values) APPLY_METHOD_TEMPORARY
             (mutter_configure_monitors (parse_monitors_from_state mutter values) 0 mcs) = Dbus_reply)
       \<and> (mr_ret (vdagent_mutter_set_monitor_config amc (Some values) (Some mutter) (Some mcs)) = 0
          \<or> mr_ret (vdagent_mutter_set_monitor_config amc (Some values) (Some mutter) (Some mcs)) = - 1)
       \<and> mr_steps (vdagent_mutter_set_monitor_config amc (Some values) (Some mutter) (Some mcs)) =
           [Blocking_call 5000]"
  using assms
  by (simp add: vdagent_mutter_set_monitor_config_def Let_def split: dbus_outcome.splits)

subsection \<open>C4: the result of an apply\<close>

text \<open>
  Claim C4 says that every apply call that gets no signal fails after 50 polling
  iterations of 100 ms. The Mutter backend has no polling loop: it makes one synchronous
  call with a timeout of 5000 ms, and when no reply arrives it fails without having
  processed events or slept.
\<close>

theorem apply_timeout_counterexample:
  "mr_ret (vdagent_mutter_set_monitor_config ex_no_reply
       (Some ex_state) (Some (ex_mutter ex_mapping)) (Some ex_layout)) = - 1
   \<and> mr_steps (vdagent_mutter_set_monitor_config ex_no_reply
       (Some ex_state) (Some (ex_mutter ex_mapping)) (Some ex_layout)) = [Blocking_call 5000]
   \<and> polling_iterations (mr_steps (vdagent_mutter_set_monitor_config ex_no_reply
       (Some ex_state) (Some (ex_mutter ex_mapping)) (Some ex_layout))) = 0
   \<and> slept_us (mr_steps (vdagent_mutter_set_monitor_config ex_no_reply
       (Some ex_state) (Some (ex_mutter ex_mapping)) (Some ex_layout))) = 0"
  by (simp add: ex_no_reply_def vdagent_mutter_set_monitor_config_def ex_mutter_def Let_def
      polling_iterations_def slept_us_def)

text \<open>
  Claim C4, amended. In the KWin backend a valid apply call returns 0 exactly when the
  first roundtrip of the wait that brings any signal is among the first 50 and brings
  \<open>applied\<close> and not \<open>failed\<close>; it returns -1 at once (without a further sleep) when that
  roundtrip brings \<open>failed\<close>; and when none of the first 50 roundtrips brings a signal it
  returns -1 with neither flag set, after 50 iterations that each process events once and
  then sleep 100 ms, 5 s in all. In the Mutter backend a valid apply call returns 0
  exactly when the synchronous call is answered by a reply, -1 on an error reply or when
  its timeout of 5000 ms expires, and it does not poll.
\<close>

theorem apply_result_follows_signal:
  assumes "output_management kwin" and "dbus_proxy mutter \<noteq> None"
  shows "(ka_ret (vdagent_kwin_set_monitor_config fx True events (Some kwin) (Some mcs)) = 0 \<longleftrightarrow>
           (\<exists>k<50. (\<forall>j<k. events j = []) \<and> Applied \<in> set (events k) \<and> Failed \<notin> set (events k)))
       \<and> (ka_ret (vdagent_kwin_set_monitor_config fx True events (Some kwin) (Some mcs)) = 0
          \<or> ka_ret (vdagent_kwin_set_monitor_config fx True events (Some kwin) (Some mcs)) = - 1)
       \<and> (\<forall>k<50. (\<forall>j<k. events j = []) \<and> Failed \<in> set (events k) \<longrightarrow>
            ka_ret (vdagent_kwin_set_monitor_config fx True events (Some kwin) (Some mcs)) = - 1
            \<and> ks_steps (ka_session (vdagent_kwin_set_monitor_config fx True events (Some kwin) (Some mcs))) =
                concat (replicate k [Process_events, Sleep_us 100000]) @ [Process_events])
       \<and> ((\<forall>k<50. events k = []) \<longrightarrow>
            ka_ret (vdagent_kwin_set_monitor_config fx True events (Some kwin) (Some mcs)) = - 1
            \<and> \<not> ks_config_applied
                  (ka_session (vdagent_kwin_set_monitor_config fx True events (Some kwin) (Some mcs)))
            \<and> \<not> ks_config_failed
                  (ka_session (vdagent_kwin_set_monitor_config fx True events (Some kwin) (Some mcs)))
            \<and> ks_steps (ka_session (vdagent_kwin_set_monitor_config fx True events (Some kwin) (Some mcs))) =
                concat (replicate 50 [Process_events, Sleep_us 100000])
            \<and> polling_iterations
                (ks_steps (ka_session
                   (vdagent_kwin_set_monitor_config fx True events (Some kwin) (Some mcs)))) = 50
            \<and> slept_us
                (ks_steps (ka_session
                   (vdagent_kwin_set_monitor_config fx True events (Some kwin) (Some mcs)))) = 5000000)
       \<and> (mr_ret (vdagent_mutter_set_monitor_config amc (Some values) (Some mutter) (Some mcs')) = 0 \<longleftrightarrow>
            amc (cs_serial values) APPLY_METHOD_TEMPORARY
              (mutter_configure_monitors (parse_monitors_from_state mutter values) 0 mcs') = Dbus_reply)
       \<and> (mr_ret (vdagent_mutter_set_monitor_config amc (Some values) (Some mutter) (Some mcs')) = 0
          \<or> mr_ret (vdagent_mutter_set_monitor_config amc (Some values) (Some mutter) (Some mcs')) = - 1)
       \<and> mr_steps (vdagent_mutter_set_monitor_config amc (Some values) (Some mutter) (Some mcs')) =
           [Blocking_call 5000]"
  using kwin_apply_ret_iff [OF assms(1), of fx events mcs]
        kwin_apply_ret_range [of fx True events "Some kwin" "Some mcs"]
        kwin_apply_rejected [OF assms(1), of _ events fx mcs]
        kwin_apply_timed_out [OF assms(1), of events fx mcs]
        mutter_apply_ret [OF assms(2), of amc "values" mcs']
  by (intro conjI allI impI) blast+

text \<open>
  A confirmation in the fourth roundtrip, a rejection in the third, and no signal at all;
  a reply and an error reply from Mutter.
\<close>

theorem apply_result_follows_signal_witness:
  "output_management (ex_kwin ex_mapping [ex_virtual_1, ex_virtual_2])
   \<and> dbus_proxy (ex_mutter ex_mapping) \<noteq> None
   \<and> ka_ret (vdagent_kwin_set_monitor_config ex_fixed True (\<lambda>k. if k = 3 then [Applied] else [])
        (Some (ex_kwin ex_mapping [ex_virtual_1, ex_virtual_2])) (Some ex_layout)) = 0
   \<and> ka_ret (vdagent_kwin_set_monitor_config ex_fixed True (\<lambda>k. if k = 2 then [Failed] else [])
        (Some (ex_kwin ex_mapping [ex_virtual_1, ex_virtual_2])) (Some ex_layout)) = - 1
   \<and> ks_steps (ka_session (vdagent_kwin_set_monitor_config ex_fixed True
        (\<lambda>k. if k = 2 then [Failed] else [])
        (Some (ex_kwin ex_mapping [ex_virtual_1, ex_virtual_2])) (Some ex_layout))) =
       [Process_events, Sleep_us 100000, Process_events, Sleep_us 100000, Process_events]
   \<and> ka_ret (vdagent_kwin_set_monitor_config ex_fixed True (\<lambda>k. [])
        (Some (ex_kwin ex_mapping [ex_virtual_1, ex_virtual_2])) (Some ex_layout)) = - 1
   \<and> polling_iterations (ks_steps (ka_session (vdagent_kwin_set_monitor_config ex_fixed True (\<lambda>k. [])
        (Some (ex_kwin ex_mapping [ex_virtual_1, ex_virtual_2])) (Some ex_layout)))) = 50
   \<and> slept_us (ks_steps (ka_session (vdagent_kwin_set_monitor_config ex_fixed True (\<lambda>k. [])
        (Some (ex_kwin ex_mapping [ex_virtual_1, ex_virtual_2])) (Some ex_layout)))) = 5000000
   \<and> mr_ret (vdagent_mutter_set_monitor_config (\<lambda>serial method lms. Dbus_reply)
        (Some ex_state) (Some (ex_mutter ex_mapping)) (Some ex_layout)) = 0
   \<and> mr_ret (vdagent_mutter_set_monitor_config (\<lambda>serial method lms. Dbus_error)
        (Some ex_state) (Some (ex_mutter ex_mapping)) (Some ex_layout)) = - 1"
proof -
  let ?kwin = "ex_kwin ex_mapping [ex_virtual_1, ex_virtual_2]"
  let ?mutter = "ex_mutter ex_mapping"
  have h: "output_management ?kwin" "dbus_proxy ?mutter \<noteq> None"
    by (simp_all add: ex_defs)
  have sig: "\<exists>k<50. (\<forall>j<k. (if j = 3 then [Applied] else []) = [])
      \<and> Applied \<in> set (if k = (3::nat) then [Applied] else [])
      \<and> Failed \<notin> set (if k = 3 then [Applied] else [])"
    by (intro exI [of _ 3]) simp
  have rej: "(2::nat) < 50 \<and> (\<forall>j<2::nat. (if j = 2 then [Failed] else []) = [])
      \<and> Failed \<in> set (if (2::nat) = 2 then [Failed] else [])"
    by simp
  from apply_result_follows_signal [OF h, of ex_fixed "\<lambda>k. if k = 3 then [Applied] else []" ex_layout
      "\<lambda>serial method lms. Dbus_reply" ex_state ex_layout] sig
  have a: "ka_ret (vdagent_kwin_set_monitor_config ex_fixed True (\<lambda>k. if k = 3 then [Applied] else [])
        (Some ?kwin) (Some ex_layout)) = 0"
    "mr_ret (vdagent_mutter_set_monitor_config (\<lambda>serial method lms. Dbus_reply)
        (Some ex_state) (Some ?mutter) (Some ex_layout)) = 0"
    by simp_all
  from apply_result_follows_signal [OF h, of ex_fixed "\<lambda>k. if k = 2 then [Failed] else []" ex_layout
      "\<lambda>serial method lms. Dbus_error" ex_state ex_layout] rej
  have b: "ka_ret (vdagent_kwin_set_monitor_config ex_fixed True (\<lambda>k. if k = 2 then [Failed] else [])
        (Some ?kwin) (Some ex_layout)) = - 1
     \<and> ks_steps (ka_session (vdagent_kwin_set_monitor_config ex_fixed True
        (\<lambda>k. if k = 2 then [Failed] else []) (Some ?kwin) (Some ex_layout))) =
       concat (replicate 2 [Process_events, Sleep_us 100000]) @ [Process_events]"
    "mr_ret (vdagent_mutter_set_monitor_config (\<lambda>serial method lms. Dbus_error)
        (Some ex_state) (Some ?mutter) (Some ex_layout)) = - 1"
    by blast+
  from apply_result_follows_signal [OF h, of ex_fixed "\<lambda>k. []" ex_layout
      "\<lambda>serial method lms. Dbus_reply" ex_state ex_layout]
  have c: "ka_ret (vdagent_kwin_set_monitor_config ex_fixed True (\<lambda>k. [])
        (Some ?kwin) (Some ex_layout)) = - 1"
    "polling_iterations (ks_steps (ka_session (vdagent_kwin_set_monitor_config ex_fixed True (\<lambda>k. [])
        (Some ?kwin) (Some ex_layout)))) = 50"
    "slept_us (ks_steps (ka_session (vdagent_kwin_set_monitor_config ex_fixed True (\<lambda>k. [])
        (Some ?kwin) (Some ex_layout)))) = 5000000"
    by (simp_all add: polling_iterations_replicate slept_us_replicate)
  from h a b c show ?thesis by (simp add: numeral_2_eq_2)
qed

end
